theory Spec2Isabelle
  imports Complex_Main "HOL-Library.Word"
begin

section \<open>Data model of \<open>src/data/dataset.py\<close>\<close>

text \<open>
  The dataset module reads pickled CIFAR-100 archives, reshapes the byte buffer into
  images, splits the train pool into a train and a validation subset and wraps the
  three datasets into loaders. The embedding follows the Python text function by
  function. Everything the code does beyond returning a value is explicit:
  \<^item> an exception is a value \<open>Inl e\<close> of the type \<open>error + 'a\<close>;
  \<^item> the disk, the list of paths the code has touched and the global random generator
    of the tensor library form a record \<open>world\<close> that every effectful function takes
    and returns;
  \<^item> a Python \<open>float\<close> is the real number it denotes: the rounding of a product to the
    nearest double is not part of the model (nor are \<open>nan\<close> and \<open>inf\<close>).
\<close>

type_synonym byte = "8 word"
type_synonym path = string

text \<open>An image in channel-last order: height, then width, then channel.\<close>

type_synonym image = "byte list list list"

datatype error =
    FileNotFoundError path
  | UnpicklingError
  | KeyError string
  | ValueError string
  | IndexError
  | TypeError string
  | AttributeError string
  | ZeroDivisionError

subsection \<open>Python and NumPy primitives\<close>

text \<open>\<open>int(x)\<close> on a float truncates towards zero.\<close>

definition py_int :: "real \<Rightarrow> int" where
  "py_int x = (if 0 \<le> x then \<lfloor>x\<rfloor> else \<lceil>x\<rceil>)"

text \<open>\<open>xs[i]\<close>: a negative index counts from the end, an index out of range raises.\<close>

definition py_getitem :: "'a list \<Rightarrow> int \<Rightarrow> error + 'a" where
  "py_getitem xs i =
     (if 0 \<le> i \<and> i < int (length xs) then Inr (xs ! nat i)
      else if i < 0 \<and> - int (length xs) \<le> i then Inr (xs ! nat (int (length xs) + i))
      else Inl IndexError)"

text \<open>\<open>xs[a:b]\<close>: both bounds are taken from the end when negative and clipped to the list.\<close>

definition py_slice_bound :: "nat \<Rightarrow> int \<Rightarrow> nat" where
  "py_slice_bound n a = (if a < 0 then nat (max (int n + a) 0) else min (nat a) n)"

definition py_slice :: "'a list \<Rightarrow> int \<Rightarrow> int \<Rightarrow> 'a list" where
  "py_slice xs a b =
     (let lo = py_slice_bound (length xs) a; hi = py_slice_bound (length xs) b
      in take (hi - lo) (drop lo xs))"

text \<open>\<open>itertools.accumulate\<close>: the running sums of a list.\<close>

fun accumulate_from :: "int \<Rightarrow> int list \<Rightarrow> int list" where
  "accumulate_from s [] = []"
| "accumulate_from s (x # xs) = (s + x) # accumulate_from (s + x) xs"

definition accumulate :: "int list \<Rightarrow> int list" where
  "accumulate xs = accumulate_from 0 xs"

text \<open>
  \<open>os.path.join\<close> with a relative second component, and \<open>os.path.expanduser\<close> for
  the current user (\<open>~\<close> and \<open>~/...\<close>), whose home directory is given.
\<close>

definition os_path_join :: "path \<Rightarrow> path \<Rightarrow> path" where
  "os_path_join a b =
     (if a = [] then b
      else if last a = CHR ''/'' then a @ b
      else a @ ''/'' @ b)"

definition os_path_expanduser :: "path \<Rightarrow> path \<Rightarrow> path" where
  "os_path_expanduser home p =
     (if p = ''~'' then home
      else if take 2 p = ''~/'' then home @ drop 1 p
      else p)"

text \<open>
  \<open>np.vstack(data)\<close> stacks the rows of \<open>data\<close> into a two-dimensional array. It raises
  when there is no row and when two rows differ in length.
\<close>

definition np_vstack :: "byte list list \<Rightarrow> error + byte list list" where
  "np_vstack rows =
     (if rows = [] then Inl (ValueError ''need at least one array to concatenate'')
      else if \<exists>r \<in> set rows. length r \<noteq> length (hd rows)
      then Inl (ValueError ''all the input array dimensions except for the concatenation axis must match exactly'')
      else Inr rows)"

text \<open>
  \<open>a.reshape(-1, 3, 32, 32)\<close> reads the array in row-major order. The free dimension
  is the size divided by \<open>3 * 32 * 32\<close>; it raises when the size is zero or not a
  multiple of that.
\<close>

definition np_reshape_3_32_32 :: "byte list list \<Rightarrow> error + byte list list list list" where
  "np_reshape_3_32_32 a =
     (let flat = concat a
      in if length flat = 0 \<or> length flat mod 3072 \<noteq> 0
         then Inl (ValueError ''cannot reshape array into shape (3,32,32)'')
         else Inr (map (\<lambda>n. map (\<lambda>c. map (\<lambda>h. map (\<lambda>w.
                     flat ! (n * 3072 + c * 1024 + h * 32 + w))
                   [0..<32]) [0..<32]) [0..<3]) [0..<length flat div 3072]))"

text \<open>\<open>a.transpose((0, 2, 3, 1))\<close> on an array of shape \<open>(N, 3, 32, 32)\<close>.\<close>

definition np_transpose_0231 :: "byte list list list list \<Rightarrow> image list" where
  "np_transpose_0231 a =
     map (\<lambda>img. map (\<lambda>h. map (\<lambda>w. map (\<lambda>c. img ! c ! h ! w) [0..<3]) [0..<32]) [0..<32]) a"

subsection \<open>The world: disk, access log, global random generator\<close>

text \<open>
  A pickled file is modelled by the dictionary it unpickles to; the three keys the code
  reads are fields, \<open>None\<close> when the key is missing. A file that does not unpickle is
  \<open>Garbage\<close>.
\<close>

record entry =
  entry_data :: "byte list list option"
  entry_fine_labels :: "int list option"
  entry_fine_label_names :: "string list option"

datatype disk_file = Pickle entry | Garbage

text \<open>
  \<open>folders\<close> gives, for a directory in the directory-per-class layout, the samples
  that a scan finds there (decoded image and class index). \<open>accessed\<close> lists the paths
  opened or scanned so far. \<open>generator\<close> is the global default generator of the tensor
  library: at state \<open>s\<close>, \<open>randperm(n)\<close> returns \<open>generator s n\<close> and advances the
  state.
\<close>

record world =
  home :: path
  files :: "path \<rightharpoonup> disk_file"
  folders :: "path \<rightharpoonup> (image \<times> int) list"
  accessed :: "path list"
  generator :: "nat \<Rightarrow> nat \<Rightarrow> nat list"
  generator_state :: nat

definition torch_randperm :: "nat \<Rightarrow> world \<Rightarrow> int list \<times> world" where
  "torch_randperm n w =
     (map int (generator w (generator_state w) n),
      w\<lparr>generator_state := Suc (generator_state w)\<rparr>)"


subsection \<open>Class \<open>CIFAR100\<close>\<close>

text \<open>
  The result of item access holds either the image made from the stored array
  (\<open>Image.fromarray\<close>) or whatever the transform returned for that image.
\<close>

datatype 'a img = PILImage image | Transformed 'a

text \<open>
  An object has \<open>train_data\<close> and \<open>train_labels\<close> or \<open>test_data\<close> and \<open>test_labels\<close>,
  depending on \<open>train\<close>; an attribute that was never assigned is \<open>None\<close>.
\<close>

record 'a CIFAR100 =
  root :: path
  train :: bool
  transform :: "(image \<Rightarrow> 'a) option"
  train_data :: "image list option"
  train_labels :: "int list option"
  test_data :: "image list option"
  test_labels :: "int list option"
  classes :: "string list"

text \<open>
  \<open>_load_data\<close> opens the archive of the split and unpickles it (the two branches on
  \<open>name\<close> make the same call), then stacks, reshapes and transposes the buffer.
  \<open>_load_meta\<close> returns the dictionary of the meta file.
\<close>

definition load_data :: "path \<Rightarrow> string \<Rightarrow> world \<Rightarrow> (error + image list \<times> int list) \<times> world" where
  "load_data self_root name w =
     (let path = os_path_join (os_path_join self_root ''cifar-100-python'') name;
          w1 = w\<lparr>accessed := accessed w @ [path]\<rparr>
      in case files w path of
           None \<Rightarrow> (Inl (FileNotFoundError path), w1)
         | Some Garbage \<Rightarrow> (Inl UnpicklingError, w1)
         | Some (Pickle entry) \<Rightarrow>
             (case entry_data entry of
                None \<Rightarrow> (Inl (KeyError ''data''), w1)
              | Some dat \<Rightarrow>
                  (case entry_fine_labels entry of
                     None \<Rightarrow> (Inl (KeyError ''fine_labels''), w1)
                   | Some labels \<Rightarrow>
                       (case np_vstack dat of
                          Inl e \<Rightarrow> (Inl e, w1)
                        | Inr stacked \<Rightarrow>
                            (case np_reshape_3_32_32 stacked of
                               Inl e \<Rightarrow> (Inl e, w1)
                             | Inr arr \<Rightarrow> (Inr (np_transpose_0231 arr, labels), w1))))))"

definition load_meta :: "path \<Rightarrow> world \<Rightarrow> (error + entry) \<times> world" where
  "load_meta self_root w =
     (let path = os_path_join (os_path_join self_root ''cifar-100-python'') ''meta'';
          w1 = w\<lparr>accessed := accessed w @ [path]\<rparr>
      in case files w path of
           None \<Rightarrow> (Inl (FileNotFoundError path), w1)
         | Some Garbage \<Rightarrow> (Inl UnpicklingError, w1)
         | Some (Pickle entry) \<Rightarrow> (Inr entry, w1))"

definition CIFAR100_init ::
  "path \<Rightarrow> bool \<Rightarrow> (image \<Rightarrow> 'a) option \<Rightarrow> world \<Rightarrow> (error + 'a CIFAR100) \<times> world" where
  "CIFAR100_init root0 train0 transform0 w =
     (let r = os_path_expanduser (home w) root0
      in case load_data r (if train0 then ''train'' else ''test'') w of
           (Inl e, w1) \<Rightarrow> (Inl e, w1)
         | (Inr (dat, labels), w1) \<Rightarrow>
             (case load_meta r w1 of
                (Inl e, w2) \<Rightarrow> (Inl e, w2)
              | (Inr meta, w2) \<Rightarrow>
                  (case entry_fine_label_names meta of
                     None \<Rightarrow> (Inl (KeyError ''fine_label_names''), w2)
                   | Some names \<Rightarrow>
                       (Inr \<lparr>root = r, train = train0, transform = transform0,
                             train_data = (if train0 then Some dat else None),
                             train_labels = (if train0 then Some labels else None),
                             test_data = (if train0 then None else Some dat),
                             test_labels = (if train0 then None else Some labels),
                             classes = names\<rparr>, w2))))"

definition CIFAR100_getitem :: "'a CIFAR100 \<Rightarrow> int \<Rightarrow> error + 'a img \<times> int" where
  "CIFAR100_getitem self index =
     (case (if train self then train_data self else test_data self) of
        None \<Rightarrow> Inl (AttributeError (if train self then ''train_data'' else ''test_data''))
      | Some dat \<Rightarrow>
          (case py_getitem dat index of
             Inl e \<Rightarrow> Inl e
           | Inr arr \<Rightarrow>
               (case (if train self then train_labels self else test_labels self) of
                  None \<Rightarrow> Inl (AttributeError (if train self then ''train_labels'' else ''test_labels''))
                | Some labels \<Rightarrow>
                    (case py_getitem labels index of
                       Inl e \<Rightarrow> Inl e
                     | Inr target \<Rightarrow>
                         (case transform self of
                            None \<Rightarrow> Inr (PILImage arr, target)
                          | Some f \<Rightarrow> Inr (Transformed (f arr), target))))))"

definition CIFAR100_len :: "'a CIFAR100 \<Rightarrow> error + nat" where
  "CIFAR100_len self =
     (case (if train self then train_data self else test_data self) of
        None \<Rightarrow> Inl (AttributeError (if train self then ''train_data'' else ''test_data''))
      | Some dat \<Rightarrow> Inr (length dat))"

subsection \<open>The directory-per-class dataset, datasets and subsets\<close>

text \<open>
  \<open>ImageFolder\<close> belongs to the vision library. The model keeps what this module uses:
  the scan of the directory at construction (it raises when the directory is missing or
  holds no sample), the list of samples, the transform applied on item access.
\<close>

record 'a ImageFolder =
  folder_root :: path
  folder_transform :: "(image \<Rightarrow> 'a) option"
  samples :: "(image \<times> int) list"

definition ImageFolder_init ::
  "path \<Rightarrow> (image \<Rightarrow> 'a) option \<Rightarrow> world \<Rightarrow> (error + 'a ImageFolder) \<times> world" where
  "ImageFolder_init root0 transform0 w =
     (let w1 = w\<lparr>accessed := accessed w @ [root0]\<rparr>
      in case folders w root0 of
           None \<Rightarrow> (Inl (FileNotFoundError root0), w1)
         | Some found \<Rightarrow>
             if found = [] then (Inl (FileNotFoundError root0), w1)
             else (Inr \<lparr>folder_root = root0, folder_transform = transform0, samples = found\<rparr>, w1))"


text \<open>
  A dataset is an object of one of the two classes or a \<open>Subset\<close> of a dataset: a view
  through a list of indices.
\<close>

datatype 'a dataset =
    Cifar "'a CIFAR100"
  | Folder "'a ImageFolder"
  | Subset "'a dataset" "int list"

fun len :: "'a dataset \<Rightarrow> error + nat" where
  "len (Cifar d) = CIFAR100_len d"
| "len (Folder d) = Inr (length (samples d))"
| "len (Subset d indices) = Inr (length indices)"


subsection \<open>\<open>random_split\<close>\<close>

text \<open>
  \<open>random_split(dataset, lengths)\<close> of the tensor library, called without a generator:
  it checks that the lengths add up to the length of the dataset, draws a permutation
  from the global generator and cuts it at the running sums of the lengths:
  \<^verbatim>\<open>
  if sum(lengths) != len(dataset): raise ValueError(...)
  indices = randperm(sum(lengths), generator=default_generator).tolist()
  return [Subset(dataset, indices[offset - length : offset])
          for offset, length in zip(accumulate(lengths), lengths)]
  \<close>
  The lengths are integers here. (Later versions of the library read lengths that add
  up to 1 as fractions; with integer lengths that is a pool of one element, and for
  lengths 0 and 1 the fractions give these same lengths back.)
\<close>

definition random_split ::
  "'a dataset \<Rightarrow> int list \<Rightarrow> world \<Rightarrow> (error + 'a dataset list) \<times> world" where
  "random_split ds lengths w =
     (case len ds of
        Inl e \<Rightarrow> (Inl e, w)
      | Inr n \<Rightarrow>
          if sum_list lengths \<noteq> int n
          then (Inl (ValueError ''Sum of input lengths does not equal the length of the input dataset!''), w)
          else (case torch_randperm (nat (sum_list lengths)) w of
                  (indices, w1) \<Rightarrow>
                    (Inr (map (\<lambda>(offset, length). Subset ds (py_slice indices (offset - length) offset))
                            (zip (accumulate lengths) lengths)), w1)))"

subsection \<open>Building the three datasets\<close>

text \<open>
  Both builders return the train dataset, the validation dataset or \<open>None\<close>, and the
  test dataset. The assignment \<open>train_dataset, val_dataset = random_split(...)\<close> raises
  when the list does not have two elements.
\<close>

definition get_imagefolder_dataset ::
  "path \<Rightarrow> (image \<Rightarrow> 'a) option \<Rightarrow> (image \<Rightarrow> 'a) option \<Rightarrow> real \<Rightarrow> world
     \<Rightarrow> (error + 'a dataset \<times> 'a dataset option \<times> 'a dataset) \<times> world" where
  "get_imagefolder_dataset root0 train_transform test_transform val_size w =
     (case ImageFolder_init (os_path_join root0 ''train'') train_transform w of
        (Inl e, w1) \<Rightarrow> (Inl e, w1)
      | (Inr train_dataset, w1) \<Rightarrow>
          (case ImageFolder_init (os_path_join root0 ''test'') test_transform w1 of
             (Inl e, w2) \<Rightarrow> (Inl e, w2)
           | (Inr test_dataset, w2) \<Rightarrow>
               if val_size > 0 then
                 (case len (Folder train_dataset) of
                    Inl e \<Rightarrow> (Inl e, w2)
                  | Inr n \<Rightarrow>
                      (let val_size1 = py_int (real n * val_size);
                           train_size = int n - val_size1
                       in case random_split (Folder train_dataset) [train_size, val_size1] w2 of
                            (Inl e, w3) \<Rightarrow> (Inl e, w3)
                          | (Inr [train_subset, val_dataset], w3) \<Rightarrow>
                              (Inr (train_subset, Some val_dataset, Folder test_dataset), w3)
                          | (Inr _, w3) \<Rightarrow> (Inl (ValueError ''wrong number of values to unpack''), w3)))
               else (Inr (Folder train_dataset, None, Folder test_dataset), w2)))"

definition get_cifar100_dataset ::
  "path \<Rightarrow> (image \<Rightarrow> 'a) option \<Rightarrow> (image \<Rightarrow> 'a) option \<Rightarrow> real \<Rightarrow> world
     \<Rightarrow> (error + 'a dataset \<times> 'a dataset option \<times> 'a dataset) \<times> world" where
  "get_cifar100_dataset root0 train_transform test_transform val_size w =
     (case CIFAR100_init root0 True train_transform w of
        (Inl e, w1) \<Rightarrow> (Inl e, w1)
      | (Inr train_dataset, w1) \<Rightarrow>
          (case CIFAR100_init root0 False test_transform w1 of
             (Inl e, w2) \<Rightarrow> (Inl e, w2)
           | (Inr test_dataset, w2) \<Rightarrow>
               if val_size > 0 then
                 (case len (Cifar train_dataset) of
                    Inl e \<Rightarrow> (Inl e, w2)
                  | Inr n \<Rightarrow>
                      (let val_size1 = py_int (real n * val_size);
                           train_size = int n - val_size1
                       in case random_split (Cifar train_dataset) [train_size, val_size1] w2 of
                            (Inl e, w3) \<Rightarrow> (Inl e, w3)
                          | (Inr [train_subset, val_dataset], w3) \<Rightarrow>
                              (Inr (train_subset, Some val_dataset, Cifar test_dataset), w3)
                          | (Inr _, w3) \<Rightarrow> (Inl (ValueError ''wrong number of values to unpack''), w3)))
               else (Inr (Cifar train_dataset, None, Cifar test_dataset), w2)))"

subsection \<open>Loaders\<close>

text \<open>
  \<open>DataLoader\<close> belongs to the tensor library. Its constructor keeps its arguments and
  builds the sampler: it raises on a negative worker count; with \<open>shuffle\<close> it builds a
  random sampler, which takes the length of the dataset (no length for \<open>None\<close>) and
  refuses a length that is not positive; the batch sampler refuses a batch size that is
  not positive.
\<close>

record 'a DataLoader =
  loader_dataset :: "'a dataset option"
  batch_size :: int
  shuffle :: bool
  num_workers :: int
  pin_memory :: bool

definition DataLoader_init ::
  "'a dataset option \<Rightarrow> int \<Rightarrow> bool \<Rightarrow> int \<Rightarrow> bool \<Rightarrow> error + 'a DataLoader" where
  "DataLoader_init ds batch_size0 shuffle0 num_workers0 pin_memory0 =
     (let self = \<lparr>loader_dataset = ds, batch_size = batch_size0, shuffle = shuffle0,
                  num_workers = num_workers0, pin_memory = pin_memory0\<rparr>;
          batch_sampler =
            (if batch_size0 \<le> 0
             then Inl (ValueError ''batch_size should be a positive integer value'')
             else Inr self)
      in if num_workers0 < 0
         then Inl (ValueError ''num_workers option should be non-negative'')
         else if shuffle0 then
           (case ds of
              None \<Rightarrow> Inl (TypeError ''object of type NoneType has no len()'')
            | Some d \<Rightarrow>
                (case len d of
                   Inl e \<Rightarrow> Inl e
                 | Inr n \<Rightarrow>
                     if n = 0
                     then Inl (ValueError ''num_samples should be a positive integer value'')
                     else batch_sampler))
         else batch_sampler)"

text \<open>
  The builder returns three loaders, and the number of steps per epoch when
  \<open>return_steps\<close> is set (\<open>None\<close> stands for the shorter tuple).
\<close>

definition get_cifar100_loaders ::
  "path \<Rightarrow> (image \<Rightarrow> 'a) option \<Rightarrow> (image \<Rightarrow> 'a) option \<Rightarrow> int \<Rightarrow> int \<Rightarrow> real \<Rightarrow> bool
     \<Rightarrow> string \<Rightarrow> bool \<Rightarrow> world
     \<Rightarrow> (error + 'a DataLoader \<times> 'a DataLoader \<times> 'a DataLoader \<times> int option) \<times> world" where
  "get_cifar100_loaders root0 train_transform test_transform batch_size0 num_workers0
       val_size shuffle0 dataset_type return_steps w =
     (case (if dataset_type = ''default''
            then get_cifar100_dataset root0 train_transform test_transform val_size w
            else if dataset_type = ''imagefolder''
            then get_imagefolder_dataset root0 train_transform test_transform val_size w
            else (Inl (ValueError ''Invalid dataset type. Choose from [default, imagefolder].''), w)) of
        (Inl e, w1) \<Rightarrow> (Inl e, w1)
      | (Inr (train_dataset, val_dataset, test_dataset), w1) \<Rightarrow>
          (case DataLoader_init (Some train_dataset) batch_size0 shuffle0 num_workers0 True of
             Inl e \<Rightarrow> (Inl e, w1)
           | Inr train_loader \<Rightarrow>
               (case DataLoader_init val_dataset batch_size0 shuffle0 num_workers0 True of
                  Inl e \<Rightarrow> (Inl e, w1)
                | Inr val_loader \<Rightarrow>
                    (case DataLoader_init (Some test_dataset) batch_size0 False num_workers0 True of
                       Inl e \<Rightarrow> (Inl e, w1)
                     | Inr test_loader \<Rightarrow>
                         if return_steps then
                           (case len train_dataset of
                              Inl e \<Rightarrow> (Inl e, w1)
                            | Inr n \<Rightarrow>
                                if batch_size0 = 0 then (Inl ZeroDivisionError, w1)
                                else (Inr (train_loader, val_loader, test_loader,
                                           Some (int n div batch_size0)), w1))
                         else (Inr (train_loader, val_loader, test_loader, None), w1)))))"






section \<open>Example inputs\<close>

text \<open>
  Concrete inputs on which the properties below are exercised: an archive is given by
  its rows and labels (row \<open>k\<close> holds the bytes \<open>3072 k, 3072 k + 1, \<dots>\<close> modulo 256), a
  world holds either the three files of the pickled layout or the two folders of the
  directory-per-class layout, and the example generator returns the indices in order
  at an even state and in reverse order at an odd state.
\<close>

definition example_row :: "nat \<Rightarrow> byte list" where
  "example_row k = map of_nat [k * 3072..<(k + 1) * 3072]"

definition example_archive :: "byte list list \<Rightarrow> int list \<Rightarrow> disk_file" where
  "example_archive rows labels =
     Pickle \<lparr>entry_data = Some rows, entry_fine_labels = Some labels,
             entry_fine_label_names = None\<rparr>"

definition example_meta :: disk_file where
  "example_meta =
     Pickle \<lparr>entry_data = None, entry_fine_labels = None,
             entry_fine_label_names = Some [''apple'', ''aquarium_fish'']\<rparr>"

definition example_world :: "disk_file \<Rightarrow> world" where
  "example_world train_file =
     \<lparr>home = ''/home/user'',
      files = [''data/cifar-100-python/train'' \<mapsto> train_file,
               ''data/cifar-100-python/test'' \<mapsto> example_archive [example_row 2] [1],
               ''data/cifar-100-python/meta'' \<mapsto> example_meta],
      folders = Map.empty,
      accessed = [],
      generator = (\<lambda>s n. if even s then [0..<n] else rev [0..<n]),
      generator_state = 0\<rparr>"

definition example_object :: "nat CIFAR100" where
  "example_object =
     \<lparr>root = ''data'', train = False, transform = Some (\<lambda>im. length im),
      train_data = None, train_labels = None,
      test_data = Some [[[[1, 2, 3]]], [[[4, 5, 6]], [[7, 8, 9]]]],
      test_labels = Some [7, 9],
      classes = [''apple'', ''aquarium_fish'']\<rparr>"

definition example_samples :: "nat \<Rightarrow> (image \<times> int) list" where
  "example_samples n = map (\<lambda>k. ([[[of_nat k]]], int (k mod 10))) [0..<n]"

definition example_folder_world :: "(image \<times> int) list \<Rightarrow> world" where
  "example_folder_world train_samples =
     \<lparr>home = ''/home/user'',
      files = Map.empty,
      folders = [''data/train'' \<mapsto> train_samples,
                 ''data/test'' \<mapsto> [([[[9]]], 3), ([[[8]]], 1), ([[[7]]], 2)]],
      accessed = [],
      generator = (\<lambda>s n. if even s then [0..<n] else rev [0..<n]),
      generator_state = 0\<rparr>"

definition example_train_folder :: "(image \<times> int) list \<Rightarrow> nat dataset" where
  "example_train_folder ss =
     Folder \<lparr>folder_root = ''data/train'', folder_transform = None, samples = ss\<rparr>"

definition example_test_folder :: "nat dataset" where
  "example_test_folder =
     Folder \<lparr>folder_root = ''data/test'', folder_transform = None,
             samples = [([[[9]]], 3), ([[[8]]], 1), ([[[7]]], 2)]\<rparr>"

section \<open>Properties of the primitives and of the archive reader\<close>

lemma py_getitem_nat: "i < length xs \<Longrightarrow> py_getitem xs (int i) = Inr (xs ! i)"
  by (simp add: py_getitem_def)

lemma py_getitem_out: "int (length xs) \<le> i \<Longrightarrow> py_getitem xs i = Inl IndexError"
  by (simp add: py_getitem_def)

lemma np_vstack_ok:
  assumes "rows \<noteq> []" and "\<forall>r \<in> set rows. length r = length (hd rows)"
  shows "np_vstack rows = Inr rows"
proof -
  have "\<not> (\<exists>r \<in> set rows. length r \<noteq> length (hd rows))"
    using assms(2) by blast
  then show ?thesis
    unfolding np_vstack_def using assms(1) by (simp only: if_False)
qed

lemma np_reshape_ok:
  assumes "length (concat a) = N * 3072" "0 < N"
  shows "np_reshape_3_32_32 a =
     Inr (map (\<lambda>n. map (\<lambda>c. map (\<lambda>h. map (\<lambda>w.
            concat a ! (n * 3072 + c * 1024 + h * 32 + w)) [0..<32]) [0..<32]) [0..<3]) [0..<N])"
proof -
  define L where "L = length (concat a)"
  have "L = N * 3072" using assms(1) by (simp only: L_def)
  then have "L \<noteq> 0" "L mod 3072 = 0" "L div 3072 = N" using assms(2) by simp_all
  then show ?thesis
    unfolding np_reshape_3_32_32_def Let_def L_def [symmetric] by simp
qed

lemma np_reshape_Inr:
  assumes "np_reshape_3_32_32 a = Inr arr"
  shows "length arr = length (concat a) div 3072"
    and "n < length (concat a) div 3072 \<Longrightarrow> c < 3 \<Longrightarrow> h < 32 \<Longrightarrow> x < 32 \<Longrightarrow>
         arr ! n ! c ! h ! x = concat a ! (n * 3072 + c * 1024 + h * 32 + x)"
proof -
  define L where "L = length (concat a)"
  have arr: "arr = map (\<lambda>n. map (\<lambda>c. map (\<lambda>h. map (\<lambda>w.
            concat a ! (n * 3072 + c * 1024 + h * 32 + w)) [0..<32]) [0..<32]) [0..<3]) [0..<L div 3072]"
    using assms unfolding np_reshape_3_32_32_def Let_def L_def [symmetric]
    by (simp split: if_splits)
  show "length arr = length (concat a) div 3072"
    unfolding arr L_def by (simp only: length_map length_upt minus_nat.diff_0)
  show "n < length (concat a) div 3072 \<Longrightarrow> c < 3 \<Longrightarrow> h < 32 \<Longrightarrow> x < 32 \<Longrightarrow>
         arr ! n ! c ! h ! x = concat a ! (n * 3072 + c * 1024 + h * 32 + x)"
    unfolding arr L_def by (simp only: nth_map length_upt nth_upt minus_nat.diff_0 add_0)
qed

lemma np_transpose_length: "length (np_transpose_0231 a) = length a"
  by (simp add: np_transpose_0231_def)



text \<open>What a successful read of an archive returns.\<close>

lemma load_data_ok:
  assumes "files w (os_path_join (os_path_join r ''cifar-100-python'') name) = Some (Pickle e)"
    and "entry_data e = Some rows" and "entry_fine_labels e = Some labels"
    and "np_vstack rows = Inr st" and "np_reshape_3_32_32 st = Inr arr"
  shows "load_data r name w =
           (Inr (np_transpose_0231 arr, labels),
            w\<lparr>accessed := accessed w @ [os_path_join (os_path_join r ''cifar-100-python'') name]\<rparr>)"
  using assms by (simp add: load_data_def Let_def)

lemma load_meta_ok:
  assumes "files w (os_path_join (os_path_join r ''cifar-100-python'') ''meta'') = Some (Pickle m)"
  shows "load_meta r w =
           (Inr m, w\<lparr>accessed := accessed w @ [os_path_join (os_path_join r ''cifar-100-python'') ''meta'']\<rparr>)"
  using assms by (simp add: load_meta_def Let_def)

lemma CIFAR100_init_ok:
  assumes "files w (os_path_join (os_path_join (os_path_expanduser (home w) root0) ''cifar-100-python'')
             (if train0 then ''train'' else ''test'')) = Some (Pickle e)"
    and "entry_data e = Some rows" and "entry_fine_labels e = Some labels"
    and "np_vstack rows = Inr st" and "np_reshape_3_32_32 st = Inr arr"
    and "files w (os_path_join (os_path_join (os_path_expanduser (home w) root0) ''cifar-100-python'')
             ''meta'') = Some (Pickle m)"
    and "entry_fine_label_names m = Some names"
  shows "CIFAR100_init root0 train0 tf w =
           (Inr \<lparr>root = os_path_expanduser (home w) root0, train = train0, transform = tf,
                 train_data = (if train0 then Some (np_transpose_0231 arr) else None),
                 train_labels = (if train0 then Some labels else None),
                 test_data = (if train0 then None else Some (np_transpose_0231 arr)),
                 test_labels = (if train0 then None else Some labels),
                 classes = names\<rparr>,
            w\<lparr>accessed := accessed w @
               [os_path_join (os_path_join (os_path_expanduser (home w) root0) ''cifar-100-python'')
                  (if train0 then ''train'' else ''test''),
                os_path_join (os_path_join (os_path_expanduser (home w) root0) ''cifar-100-python'')
                  ''meta'']\<rparr>)"
proof -
  define r where "r = os_path_expanduser (home w) root0"
  define p1 where "p1 = os_path_join (os_path_join r ''cifar-100-python'') (if train0 then ''train'' else ''test'')"
  define p2 where "p2 = os_path_join (os_path_join r ''cifar-100-python'') ''meta''"
  define name where "name = (if train0 then ''train'' else ''test'')"
  define w1 where "w1 = w\<lparr>accessed := accessed w @ [p1]\<rparr>"
  have 1: "load_data r name w = (Inr (np_transpose_0231 arr, labels), w1)"
    unfolding r_def name_def w1_def p1_def by (rule load_data_ok [OF assms(1-5)])
  have "files w1 p2 = Some (Pickle m)"
    using assms(6) unfolding w1_def p2_def r_def by simp
  then have 2: "load_meta r w1 = (Inr m, w1\<lparr>accessed := accessed w1 @ [p2]\<rparr>)"
    unfolding p2_def by (rule load_meta_ok)
  have 3: "w1\<lparr>accessed := accessed w1 @ [p2]\<rparr> = w\<lparr>accessed := accessed w @ [p1, p2]\<rparr>"
    unfolding w1_def by simp
  have "CIFAR100_init root0 train0 tf w =
          (case load_data r name w of
             (Inl e, w1) \<Rightarrow> (Inl e, w1)
           | (Inr (dat, labels), w1) \<Rightarrow>
               (case load_meta r w1 of
                  (Inl e, w2) \<Rightarrow> (Inl e, w2)
                | (Inr meta, w2) \<Rightarrow>
                    (case entry_fine_label_names meta of
                       None \<Rightarrow> (Inl (KeyError ''fine_label_names''), w2)
                     | Some names \<Rightarrow>
                         (Inr \<lparr>root = r, train = train0, transform = tf,
                               train_data = (if train0 then Some dat else None),
                               train_labels = (if train0 then Some labels else None),
                               test_data = (if train0 then None else Some dat),
                               test_labels = (if train0 then None else Some labels),
                               classes = names\<rparr>, w2))))"
    unfolding CIFAR100_init_def Let_def r_def name_def ..
  also have "\<dots> = (Inr \<lparr>root = r, train = train0, transform = tf,
                 train_data = (if train0 then Some (np_transpose_0231 arr) else None),
                 train_labels = (if train0 then Some labels else None),
                 test_data = (if train0 then None else Some (np_transpose_0231 arr)),
                 test_labels = (if train0 then None else Some labels),
                 classes = names\<rparr>,
            w\<lparr>accessed := accessed w @ [p1, p2]\<rparr>)"
    by (simp only: 1 2 3 prod.case sum.case option.case assms(7))
  finally show ?thesis unfolding r_def p1_def p2_def .
qed

lemma CIFAR100_getitem_ok:
  assumes "(if train self then train_data self else test_data self) = Some dat"
    and "(if train self then train_labels self else test_labels self) = Some labels"
    and "py_getitem dat index = Inr arr" and "py_getitem labels index = Inr target"
  shows "CIFAR100_getitem self index =
           Inr (case transform self of None \<Rightarrow> PILImage arr | Some f \<Rightarrow> Transformed (f arr), target)"
  using assms by (simp add: CIFAR100_getitem_def split: option.splits)

lemma length_example_row: "length (example_row k) = 3072"
  by (simp add: example_row_def)


lemma example_paths:
  "os_path_join (os_path_join (os_path_expanduser h ''data'') ''cifar-100-python'') ''train'' = ''data/cifar-100-python/train''"
  "os_path_join (os_path_join (os_path_expanduser h ''data'') ''cifar-100-python'') ''test'' = ''data/cifar-100-python/test''"
  "os_path_join (os_path_join (os_path_expanduser h ''data'') ''cifar-100-python'') ''meta'' = ''data/cifar-100-python/meta''"
  by (simp_all add: os_path_join_def os_path_expanduser_def)


lemma example_world_files:
  "files (example_world f) ''data/cifar-100-python/train'' = Some f"
  "files (example_world f) ''data/cifar-100-python/test'' = Some (example_archive [example_row 2] [1])"
  "files (example_world f) ''data/cifar-100-python/meta'' = Some example_meta"
  by (simp_all add: example_world_def)

lemma example_rows_facts:
  "[example_row 0, example_row 1] \<noteq> []"
  "\<forall>r \<in> set [example_row 0, example_row 1]. length r = length (hd [example_row 0, example_row 1])"
  "length (concat [example_row 0, example_row 1]) = 2 * 3072"
  by (simp_all add: length_example_row)


text \<open>Reading the disk changes the access log only; its result depends on the disk only.\<close>

lemma load_data_snd:
  "snd (load_data r name w) =
     w\<lparr>accessed := accessed w @ [os_path_join (os_path_join r ''cifar-100-python'') name]\<rparr>"
  by (simp add: load_data_def Let_def split: option.split disk_file.split sum.split)

lemma load_data_fst:
  "files w = files w' \<Longrightarrow> fst (load_data r name w) = fst (load_data r name w')"
  by (simp add: load_data_def Let_def split: option.split disk_file.split sum.split)

lemma load_meta_snd:
  "snd (load_meta r w) =
     w\<lparr>accessed := accessed w @ [os_path_join (os_path_join r ''cifar-100-python'') ''meta'']\<rparr>"
  by (simp add: load_meta_def Let_def split: option.split disk_file.split)

lemma load_meta_fst:
  "files w = files w' \<Longrightarrow> fst (load_meta r w) = fst (load_meta r w')"
  by (simp add: load_meta_def Let_def split: option.split disk_file.split)

lemma CIFAR100_init_snd:
  "\<exists>l. snd (CIFAR100_init root0 train0 tf w) = w\<lparr>accessed := l\<rparr>"
proof -
  obtain r1 w1 where 1: "load_data (os_path_expanduser (home w) root0) (if train0 then ''train'' else ''test'') w = (r1, w1)"
    by (cases "load_data (os_path_expanduser (home w) root0) (if train0 then ''train'' else ''test'') w")
  obtain r2 w2 where 2: "load_meta (os_path_expanduser (home w) root0) w1 = (r2, w2)"
    by (cases "load_meta (os_path_expanduser (home w) root0) w1")
  have w1: "\<exists>l. w1 = w\<lparr>accessed := l\<rparr>"
    using load_data_snd [of "os_path_expanduser (home w) root0" "if train0 then ''train'' else ''test''" w]
    unfolding 1 by auto
  have "\<exists>l. w2 = w1\<lparr>accessed := l\<rparr>"
    using load_meta_snd [of "os_path_expanduser (home w) root0" w1] unfolding 2 by auto
  with w1 have w2: "\<exists>l. w2 = w\<lparr>accessed := l\<rparr>" by auto
  show ?thesis
    unfolding CIFAR100_init_def Let_def 1
    using w1 w2 by (auto simp: 2 split: sum.split option.split prod.split)
qed

lemma CIFAR100_init_fst:
  assumes "home w = home w'" and "files w = files w'"
  shows "fst (CIFAR100_init root0 train0 tf w) = fst (CIFAR100_init root0 train0 tf w')"
proof -
  let ?r = "os_path_expanduser (home w) root0"
  let ?n = "if train0 then ''train'' else ''test''"
  obtain r1 w1 where 1: "load_data ?r ?n w = (r1, w1)" by (cases "load_data ?r ?n w")
  obtain r1' w1' where e1b: "load_data ?r ?n w' = (r1', w1')" by (cases "load_data ?r ?n w'")
  have r1: "r1' = r1" using load_data_fst [OF assms(2), of ?r ?n] unfolding 1 e1b by simp
  have f1: "files w1 = files w1'"
    using load_data_snd [of ?r ?n w] load_data_snd [of ?r ?n w'] assms(2) unfolding 1 e1b by simp
  obtain r2 w2 where 2: "load_meta ?r w1 = (r2, w2)" by (cases "load_meta ?r w1")
  obtain r2' w2' where e2b: "load_meta ?r w1' = (r2', w2')" by (cases "load_meta ?r w1'")
  have r2: "r2' = r2" using load_meta_fst [OF f1, of ?r] unfolding 2 e2b by simp
  show ?thesis
    unfolding CIFAR100_init_def Let_def assms(1) [symmetric] 1 e1b r1
    by (simp add: 2 e2b r2 split: sum.split option.split prod.split)
qed

lemma ImageFolder_init_snd:
  "snd (ImageFolder_init root0 tf w) = w\<lparr>accessed := accessed w @ [root0]\<rparr>"
  by (simp add: ImageFolder_init_def Let_def split: option.split)

lemma ImageFolder_init_fst:
  "folders w = folders w' \<Longrightarrow> fst (ImageFolder_init root0 tf w) = fst (ImageFolder_init root0 tf w')"
  by (simp add: ImageFolder_init_def Let_def split: option.split)

lemma random_split_fst:
  "generator w (generator_state w) = generator w' (generator_state w') \<Longrightarrow>
   fst (random_split ds lengths w) = fst (random_split ds lengths w')"
  by (simp add: random_split_def torch_randperm_def split: sum.split)

section \<open>Properties of the split\<close>

lemma py_int_nonneg: "0 \<le> x \<Longrightarrow> py_int x = \<lfloor>x\<rfloor>"
  by (simp add: py_int_def)

lemma val_count_bounds:
  assumes "0 < v" and "v < 1"
  shows "0 \<le> \<lfloor>real n * v\<rfloor>" and "\<lfloor>real n * v\<rfloor> \<le> int n"
proof -
  have nn: "0 \<le> real n * v" using assms(1) by simp
  then show "0 \<le> \<lfloor>real n * v\<rfloor>" by simp
  have "real n * v \<le> real n * 1"
    using assms(2) by (intro mult_left_mono) simp_all
  then have "\<lfloor>real n * v\<rfloor> \<le> \<lfloor>real n\<rfloor>"
    by (intro floor_mono) simp
  then show "\<lfloor>real n * v\<rfloor> \<le> int n" by simp
qed

lemma py_slice_front:
  assumes "0 \<le> a" and "nat a \<le> length xs"
  shows "py_slice xs (a - a) a = take (nat a) xs"
  using assms by (simp add: py_slice_def py_slice_bound_def Let_def)

lemma py_slice_back:
  assumes "0 \<le> a" and "nat a \<le> length xs"
  shows "py_slice xs (int (length xs) - (int (length xs) - a)) (int (length xs)) = drop (nat a) xs"
  using assms by (simp add: py_slice_def py_slice_bound_def Let_def)

lemma accumulate_two: "accumulate [a, b] = [a, a + b]"
  by (simp add: accumulate_def)

text \<open>A split into two lengths that add up to the length of the dataset.\<close>

lemma random_split_two:
  assumes "len ds = Inr n" and "0 \<le> k" and "k \<le> int n"
    and "length (generator w (generator_state w) n) = n"
  shows "random_split ds [int n - k, k] w =
           (Inr [Subset ds (take (nat (int n - k)) (map int (generator w (generator_state w) n))),
                 Subset ds (drop (nat (int n - k)) (map int (generator w (generator_state w) n)))],
            w\<lparr>generator_state := Suc (generator_state w)\<rparr>)"
proof -
  define idx where "idx = map int (generator w (generator_state w) n)"
  have lidx: "length idx = n" unfolding idx_def using assms(4) by simp
  have a: "0 \<le> int n - k" "nat (int n - k) \<le> length idx"
    using assms(2,3) lidx by simp_all
  have fr: "py_slice idx 0 (int n - k) = take (nat (int n - k)) idx"
    using py_slice_front [OF a] by simp
  have bk: "py_slice idx (int n - k) (int n) = drop (nat (int n - k)) idx"
    using py_slice_back [OF a] lidx by simp
  have rp: "torch_randperm n w = (idx, w\<lparr>generator_state := Suc (generator_state w)\<rparr>)"
    by (simp add: torch_randperm_def idx_def)
  show ?thesis
    unfolding idx_def [symmetric]
    by (simp add: random_split_def assms(1) rp accumulate_two fr bk)
qed


lemma CIFAR100_init_world:
  assumes "CIFAR100_init root0 train0 tf w = (r, w')"
  shows "home w' = home w" and "files w' = files w" and "folders w' = folders w"
    and "generator w' = generator w" and "generator_state w' = generator_state w"
proof -
  obtain l where "w' = w\<lparr>accessed := l\<rparr>"
    using CIFAR100_init_snd [of root0 train0 tf w] unfolding assms by auto
  then show "home w' = home w" and "files w' = files w" and "folders w' = folders w"
    and "generator w' = generator w" and "generator_state w' = generator_state w"
    by simp_all
qed

lemma ImageFolder_init_world:
  assumes "ImageFolder_init root0 tf w = (r, w')"
  shows "home w' = home w" and "files w' = files w" and "folders w' = folders w"
    and "generator w' = generator w" and "generator_state w' = generator_state w"
  using ImageFolder_init_snd [of root0 tf w] unfolding assms by simp_all


lemma get_imagefolder_dataset_split:
  assumes "ImageFolder_init (os_path_join root0 ''train'') tt w = (Inr pool, w1)"
    and "ImageFolder_init (os_path_join root0 ''test'') te w1 = (Inr test, w2)"
    and "length (samples pool) = P" and "0 < v" and "v < 1"
    and "length (generator w2 (generator_state w2) P) = P"
  shows "get_imagefolder_dataset root0 tt te v w =
           (Inr (Subset (Folder pool)
                   (take (nat (int P - \<lfloor>real P * v\<rfloor>)) (map int (generator w2 (generator_state w2) P))),
                 Some (Subset (Folder pool)
                   (drop (nat (int P - \<lfloor>real P * v\<rfloor>)) (map int (generator w2 (generator_state w2) P)))),
                 Folder test),
            w2\<lparr>generator_state := Suc (generator_state w2)\<rparr>)"
proof -
  have l: "len (Folder pool) = Inr P" using assms(3) by simp
  have pi: "py_int (real P * v) = \<lfloor>real P * v\<rfloor>"
    using assms(4) by (intro py_int_nonneg) simp
  note rs = random_split_two [OF l val_count_bounds [OF assms(4,5)] assms(6)]
  show ?thesis
    unfolding get_imagefolder_dataset_def
    by (simp add: assms(1,2,3,4) pi rs Let_def)
qed

lemma get_cifar100_dataset_no_val:
  assumes "v \<le> 0"
  shows "get_cifar100_dataset root0 tt te v w =
           (case CIFAR100_init root0 True tt w of
              (Inl e, w1) \<Rightarrow> (Inl e, w1)
            | (Inr train_dataset, w1) \<Rightarrow>
                (case CIFAR100_init root0 False te w1 of
                   (Inl e, w2) \<Rightarrow> (Inl e, w2)
                 | (Inr test_dataset, w2) \<Rightarrow>
                     (Inr (Cifar train_dataset, None, Cifar test_dataset), w2)))"
  using assms unfolding get_cifar100_dataset_def
  by (simp split: prod.split sum.split)

lemma get_imagefolder_dataset_no_val:
  assumes "v \<le> 0"
  shows "get_imagefolder_dataset root0 tt te v w =
           (case ImageFolder_init (os_path_join root0 ''train'') tt w of
              (Inl e, w1) \<Rightarrow> (Inl e, w1)
            | (Inr train_dataset, w1) \<Rightarrow>
                (case ImageFolder_init (os_path_join root0 ''test'') te w1 of
                   (Inl e, w2) \<Rightarrow> (Inl e, w2)
                 | (Inr test_dataset, w2) \<Rightarrow>
                     (Inr (Folder train_dataset, None, Folder test_dataset), w2)))"
  using assms unfolding get_imagefolder_dataset_def
  by (simp split: prod.split sum.split)

lemma example_cifar_inits:
  fixes tf tf' :: "(image \<Rightarrow> 'a) option"
  obtains pool test w1 w2 where
    "CIFAR100_init ''data'' True tf (example_world (example_archive [example_row 0, example_row 1] ls)) = (Inr pool, w1)"
    "CIFAR100_init ''data'' False tf' w1 = (Inr test, w2)"
    "CIFAR100_len pool = Inr 2" "CIFAR100_len test = Inr 1"
proof -
  let ?w = "example_world (example_archive [example_row 0, example_row 1] ls)"
  let ?e = "\<lparr>entry_data = Some [example_row 0, example_row 1], entry_fine_labels = Some ls,
             entry_fine_label_names = None\<rparr>"
  let ?e' = "\<lparr>entry_data = Some [example_row 2], entry_fine_labels = Some [1],
             entry_fine_label_names = None\<rparr>"
  let ?m = "\<lparr>entry_data = None, entry_fine_labels = None,
             entry_fine_label_names = Some [''apple'', ''aquarium_fish'']\<rparr>"
  have 1: "files ?w (os_path_join (os_path_join (os_path_expanduser (home ?w) ''data'') ''cifar-100-python'')
             (if True then ''train'' else ''test'')) = Some (Pickle ?e)"
    by (simp add: example_paths example_world_files example_archive_def)
  have 2: "files ?w (os_path_join (os_path_join (os_path_expanduser (home ?w) ''data'') ''cifar-100-python'')
             ''meta'') = Some (Pickle ?m)"
    by (simp add: example_paths example_world_files example_meta_def)
  have st: "np_vstack [example_row 0, example_row 1] = Inr [example_row 0, example_row 1]"
    by (rule np_vstack_ok [OF example_rows_facts(1,2)])
  obtain a4 where a4: "np_reshape_3_32_32 [example_row 0, example_row 1] = Inr a4"
    using np_reshape_ok [OF example_rows_facts(3)] by auto
  have la4: "length a4 = 2"
    using np_reshape_Inr(1) [OF a4] example_rows_facts(3) by simp
  obtain pool w1 where i1: "CIFAR100_init ''data'' True tf ?w = (Inr pool, w1)"
    and tp: "train pool" and dp: "train_data pool = Some (np_transpose_0231 a4)"
    using CIFAR100_init_ok [where tf = tf and labels = ls and names = "[''apple'', ''aquarium_fish'']",
        OF 1 _ _ st a4 2] by simp
  have lp: "CIFAR100_len pool = Inr 2"
    by (simp add: CIFAR100_len_def tp dp np_transpose_length la4)
  have hw: "home w1 = home ?w" and fw: "files w1 = files ?w"
    using CIFAR100_init_world [OF i1] by simp_all
  have 3: "files w1 (os_path_join (os_path_join (os_path_expanduser (home w1) ''data'') ''cifar-100-python'')
             (if False then ''train'' else ''test'')) = Some (Pickle ?e')"
    unfolding hw fw by (simp add: example_paths example_world_files example_archive_def)
  have 4: "files w1 (os_path_join (os_path_join (os_path_expanduser (home w1) ''data'') ''cifar-100-python'')
             ''meta'') = Some (Pickle ?m)"
    unfolding hw fw by (simp add: example_paths example_world_files example_meta_def)
  have st': "np_vstack [example_row 2] = Inr [example_row 2]"
    by (rule np_vstack_ok) simp_all
  have lc: "length (concat [example_row 2]) = 1 * 3072"
    by (simp add: length_example_row)
  obtain b4 where b4: "np_reshape_3_32_32 [example_row 2] = Inr b4"
    using np_reshape_ok [OF lc] by auto
  have lb4: "length b4 = 1"
    using np_reshape_Inr(1) [OF b4] lc by simp
  obtain test w2 where i2: "CIFAR100_init ''data'' False tf' w1 = (Inr test, w2)"
    and tt: "\<not> train test" and dt: "test_data test = Some (np_transpose_0231 b4)"
    using CIFAR100_init_ok [where tf = tf' and labels = "[1]" and names = "[''apple'', ''aquarium_fish'']",
        OF 3 _ _ st' b4 4] by simp
  have lt: "CIFAR100_len test = Inr 1"
    by (simp add: CIFAR100_len_def tt dt np_transpose_length lb4)
  from i1 i2 lp lt show ?thesis by (rule that)
qed

lemma example_folder_inits:
  assumes "ss \<noteq> []"
  shows "ImageFolder_init (os_path_join ''data'' ''train'') tf (example_folder_world ss) =
           (Inr \<lparr>folder_root = ''data/train'', folder_transform = tf, samples = ss\<rparr>,
            (example_folder_world ss)\<lparr>accessed := [''data/train'']\<rparr>)"
    and "ImageFolder_init (os_path_join ''data'' ''test'') tg ((example_folder_world ss)\<lparr>accessed := [''data/train'']\<rparr>) =
           (Inr \<lparr>folder_root = ''data/test'', folder_transform = tg,
                 samples = [([[[9]]], 3), ([[[8]]], 1), ([[[7]]], 2)]\<rparr>,
            (example_folder_world ss)\<lparr>accessed := [''data/train'', ''data/test'']\<rparr>)"
  using assms
  by (simp_all add: ImageFolder_init_def example_folder_world_def os_path_join_def Let_def)

lemma length_example_samples: "length (example_samples n) = n"
  by (simp add: example_samples_def)

lemma example_generator:
  "generator (example_folder_world ss) = (\<lambda>s n. if even s then [0..<n] else rev [0..<n])"
  "generator_state (example_folder_world ss) = 0"
  "generator (example_world f) = (\<lambda>s n. if even s then [0..<n] else rev [0..<n])"
  "generator_state (example_world f) = 0"
  by (simp_all add: example_folder_world_def example_world_def)


subsection \<open>The builders on the example folders\<close>

lemma folder_init_train:
  assumes "folders w ''data/train'' = Some ss" and "ss \<noteq> []"
  shows "ImageFolder_init (os_path_join ''data'' ''train'') tf w =
           (Inr \<lparr>folder_root = ''data/train'', folder_transform = tf, samples = ss\<rparr>,
            w\<lparr>accessed := accessed w @ [''data/train'']\<rparr>)"
  using assms by (simp add: ImageFolder_init_def os_path_join_def Let_def)

lemma folder_init_test:
  assumes "folders w ''data/test'' = Some ss" and "ss \<noteq> []"
  shows "ImageFolder_init (os_path_join ''data'' ''test'') tf w =
           (Inr \<lparr>folder_root = ''data/test'', folder_transform = tf, samples = ss\<rparr>,
            w\<lparr>accessed := accessed w @ [''data/test'']\<rparr>)"
  using assms by (simp add: ImageFolder_init_def os_path_join_def Let_def)

lemma example_folders:
  "folders (example_folder_world ss) ''data/train'' = Some ss"
  "folders (example_folder_world ss) ''data/test'' = Some [([[[9]]], 3), ([[[8]]], 1), ([[[7]]], 2)]"
  by (simp_all add: example_folder_world_def)

lemma unpack_fst:
  "fst (case p of
          (Inl e, w3) \<Rightarrow> (Inl e, w3)
        | (Inr [a, b], w3) \<Rightarrow> (Inr (F a b), w3)
        | (Inr _, w3) \<Rightarrow> (Inl E, w3)) =
   (case fst p of Inl e \<Rightarrow> Inl e | Inr [a, b] \<Rightarrow> Inr (F a b) | Inr _ \<Rightarrow> Inl E)"
  by (simp split: prod.split sum.split list.split)

lemma upt_2: "[0..<2] = [0, 1]"
  by (simp add: numeral_2_eq_2)

lemma example_samples_nonempty: "0 < n \<Longrightarrow> example_samples n \<noteq> []"
  using length_example_samples [of n] by auto

lemma example_folder_no_val:
  assumes "v \<le> 0" and "ss \<noteq> []" and "folders w = folders (example_folder_world ss)"
  shows "get_imagefolder_dataset ''data'' None None v w =
           (Inr (example_train_folder ss, None, example_test_folder),
            w\<lparr>accessed := accessed w @ [''data/train'', ''data/test'']\<rparr>)"
proof -
  let ?wa = "w\<lparr>accessed := accessed w @ [''data/train'']\<rparr>"
  let ?wb = "?wa\<lparr>accessed := accessed ?wa @ [''data/test'']\<rparr>"
  have 1: "ImageFolder_init (os_path_join ''data'' ''train'') (None :: (image \<Rightarrow> nat) option) w =
      (Inr \<lparr>folder_root = ''data/train'', folder_transform = None, samples = ss\<rparr>, ?wa)"
    by (rule folder_init_train [OF _ assms(2)]) (simp add: assms(3) example_folders)
  have 2: "ImageFolder_init (os_path_join ''data'' ''test'') (None :: (image \<Rightarrow> nat) option) ?wa =
      (Inr \<lparr>folder_root = ''data/test'', folder_transform = None,
            samples = [([[[9]]], 3), ([[[8]]], 1), ([[[7]]], 2)]\<rparr>, ?wb)"
    by (rule folder_init_test) (simp_all add: assms(3) example_folders)
  have "get_imagefolder_dataset ''data'' None None v w =
      (Inr (example_train_folder ss, None, example_test_folder), ?wb)"
    unfolding get_imagefolder_dataset_no_val [OF assms(1)] 1 prod.case sum.case 2
      example_train_folder_def example_test_folder_def ..
  then show ?thesis by simp
qed

text \<open>A run of the folder builder from any world that holds the example folders.\<close>

lemma example_folder_split:
  assumes "folders w = folders (example_folder_world ss)" and "length ss = P" and "0 < P"
    and "0 < v" and "v < 1" and "length (generator w (generator_state w) P) = P"
  shows "get_imagefolder_dataset ''data'' None None v w =
           (Inr (Subset (example_train_folder ss)
                   (take (nat (int P - \<lfloor>real P * v\<rfloor>)) (map int (generator w (generator_state w) P))),
                 Some (Subset (example_train_folder ss)
                   (drop (nat (int P - \<lfloor>real P * v\<rfloor>)) (map int (generator w (generator_state w) P)))),
                 example_test_folder),
            w\<lparr>accessed := accessed w @ [''data/train'', ''data/test''],
              generator_state := Suc (generator_state w)\<rparr>)"
proof -
  have ne: "ss \<noteq> []" using assms(2,3) by auto
  let ?wa = "w\<lparr>accessed := accessed w @ [''data/train'']\<rparr>"
  let ?wb = "?wa\<lparr>accessed := accessed ?wa @ [''data/test'']\<rparr>"
  have 1: "ImageFolder_init (os_path_join ''data'' ''train'') (None :: (image \<Rightarrow> nat) option) w =
      (Inr \<lparr>folder_root = ''data/train'', folder_transform = None, samples = ss\<rparr>, ?wa)"
    by (rule folder_init_train [OF _ ne]) (simp add: assms(1) example_folders)
  have 2: "ImageFolder_init (os_path_join ''data'' ''test'') (None :: (image \<Rightarrow> nat) option) ?wa =
      (Inr \<lparr>folder_root = ''data/test'', folder_transform = None,
            samples = [([[[9]]], 3), ([[[8]]], 1), ([[[7]]], 2)]\<rparr>, ?wb)"
    by (rule folder_init_test) (simp_all add: assms(1) example_folders)
  have g: "length (generator ?wb (generator_state ?wb) P) = P" using assms(6) by simp
  have l: "length (samples \<lparr>folder_root = ''data/train'', folder_transform = (None :: (image \<Rightarrow> nat) option), samples = ss\<rparr>) = P"
    using assms(2) by simp
  show ?thesis
    unfolding get_imagefolder_dataset_split [OF 1 2 l assms(4,5) g]
    by (simp add: example_train_folder_def example_test_folder_def)
qed

section \<open>Properties of the loader builder\<close>

lemma DataLoader_init_ok:
  assumes "0 \<le> nw" and "0 < bs" and "sh \<longrightarrow> (\<exists>d n. ds = Some d \<and> len d = Inr n \<and> 0 < n)"
  shows "DataLoader_init ds bs sh nw pm =
           Inr \<lparr>loader_dataset = ds, batch_size = bs, shuffle = sh, num_workers = nw, pin_memory = pm\<rparr>"
  using assms by (auto simp: DataLoader_init_def Let_def)

lemma DataLoader_init_Inr:
  assumes "DataLoader_init ds bs sh nw pm = Inr l"
  shows "l = \<lparr>loader_dataset = ds, batch_size = bs, shuffle = sh, num_workers = nw, pin_memory = pm\<rparr>"
    and "0 \<le> nw" and "0 < bs"
    and "sh \<longrightarrow> (\<exists>d n. ds = Some d \<and> len d = Inr n \<and> 0 < n)"
  using assms
  by (auto simp: DataLoader_init_def Let_def split: if_splits option.splits sum.splits)

lemma get_cifar100_loaders_Inr:
  assumes "get_cifar100_loaders rt tt te bs nw v sh dt rs w = (Inr (trl, vll, tel, st), w')"
  obtains trn val tst where
    "(if dt = ''default'' then get_cifar100_dataset rt tt te v w
      else get_imagefolder_dataset rt tt te v w) = (Inr (trn, val, tst), w')"
    and "dt = ''default'' \<or> dt = ''imagefolder''"
    and "DataLoader_init (Some trn) bs sh nw True = Inr trl"
    and "DataLoader_init val bs sh nw True = Inr vll"
    and "DataLoader_init (Some tst) bs False nw True = Inr tel"
    and "if rs then (\<exists>n. len trn = Inr n \<and> st = Some (int n div bs)) else st = None"
proof -
  define res where "res =
    (if dt = ''default'' then get_cifar100_dataset rt tt te v w
     else if dt = ''imagefolder'' then get_imagefolder_dataset rt tt te v w
     else (Inl (ValueError ''Invalid dataset type. Choose from [default, imagefolder].''), w))"
  have unf: "get_cifar100_loaders rt tt te bs nw v sh dt rs w =
    (case res of
        (Inl e, w1) \<Rightarrow> (Inl e, w1)
      | (Inr (train_dataset, val_dataset, test_dataset), w1) \<Rightarrow>
          (case DataLoader_init (Some train_dataset) bs sh nw True of
             Inl e \<Rightarrow> (Inl e, w1)
           | Inr train_loader \<Rightarrow>
               (case DataLoader_init val_dataset bs sh nw True of
                  Inl e \<Rightarrow> (Inl e, w1)
                | Inr val_loader \<Rightarrow>
                    (case DataLoader_init (Some test_dataset) bs False nw True of
                       Inl e \<Rightarrow> (Inl e, w1)
                     | Inr test_loader \<Rightarrow>
                         if rs then
                           (case len train_dataset of
                              Inl e \<Rightarrow> (Inl e, w1)
                            | Inr n \<Rightarrow>
                                if bs = 0 then (Inl ZeroDivisionError, w1)
                                else (Inr (train_loader, val_loader, test_loader,
                                           Some (int n div bs)), w1))
                         else (Inr (train_loader, val_loader, test_loader, None), w1)))))"
    unfolding get_cifar100_loaders_def res_def ..
  obtain r w1 where r: "res = (r, w1)" by (cases res)
  from assms obtain trn val tst where rr: "r = Inr (trn, val, tst)"
    unfolding unf r by (cases r) auto
  from assms obtain l1 where l1: "DataLoader_init (Some trn) bs sh nw True = Inr l1"
    unfolding unf r rr by (cases "DataLoader_init (Some trn) bs sh nw True") auto
  from assms obtain l2 where l2: "DataLoader_init val bs sh nw True = Inr l2"
    unfolding unf r rr by (cases "DataLoader_init val bs sh nw True") (auto simp: l1)
  from assms obtain l3 where l3: "DataLoader_init (Some tst) bs False nw True = Inr l3"
    unfolding unf r rr by (cases "DataLoader_init (Some tst) bs False nw True") (auto simp: l1 l2)
  from assms have fin: "(if rs then
                           (case len trn of
                              Inl e \<Rightarrow> (Inl e, w1)
                            | Inr n \<Rightarrow>
                                if bs = 0 then (Inl ZeroDivisionError, w1)
                                else (Inr (l1, l2, l3, Some (int n div bs)), w1))
                         else (Inr (l1, l2, l3, None), w1)) = (Inr (trl, vll, tel, st), w')"
    unfolding unf r rr by (simp add: l1 l2 l3)
  then have eqs: "l1 = trl" "l2 = vll" "l3 = tel" "w1 = w'"
    by (auto split: if_splits sum.splits)
  from fin have st: "if rs then (\<exists>n. len trn = Inr n \<and> st = Some (int n div bs)) else st = None"
    by (auto split: if_splits sum.splits)
  have dt: "dt = ''default'' \<or> dt = ''imagefolder''"
    using r rr unfolding res_def by (auto split: if_splits)
  then have "(if dt = ''default'' then get_cifar100_dataset rt tt te v w
      else get_imagefolder_dataset rt tt te v w) = (Inr (trn, val, tst), w')"
    using r rr eqs(4) unfolding res_def by (auto split: if_splits)
  from this dt l1 [unfolded eqs] l2 [unfolded eqs] l3 [unfolded eqs] st
  show ?thesis by (rule that)
qed

lemma get_cifar100_loaders_ok:
  assumes "(if dt = ''default'' then get_cifar100_dataset rt tt te v w
      else get_imagefolder_dataset rt tt te v w) = (Inr (trn, val, tst), w')"
    and "dt = ''default'' \<or> dt = ''imagefolder''"
    and "DataLoader_init (Some trn) bs sh nw True = Inr trl"
    and "DataLoader_init val bs sh nw True = Inr vll"
    and "DataLoader_init (Some tst) bs False nw True = Inr tel"
    and "len trn = Inr n"
  shows "get_cifar100_loaders rt tt te bs nw v sh dt rs w =
           (Inr (trl, vll, tel, if rs then Some (int n div bs) else None), w')"
proof -
  have bs: "bs \<noteq> 0" using DataLoader_init_Inr(3) [OF assms(3)] by simp
  from assms(2) show ?thesis
  proof
    assume d: "dt = ''default''"
    with assms(1) have "get_cifar100_dataset rt tt te v w = (Inr (trn, val, tst), w')" by simp
    then show ?thesis
      unfolding get_cifar100_loaders_def d by (simp add: assms(3-6) bs)
  next
    assume d: "dt = ''imagefolder''"
    with assms(1) have "get_imagefolder_dataset rt tt te v w = (Inr (trn, val, tst), w')" by simp
    then show ?thesis
      unfolding get_cifar100_loaders_def d by (simp add: assms(3-6) bs)
  qed
qed



text \<open>The loaders built over the example folders with a validation fraction.\<close>

lemma example_folder_loaders:
  assumes "length ss = P" and "0 < v" and "v < 1" and "0 < bs" and "0 \<le> nw"
    and "0 < \<lfloor>real P * v\<rfloor>" and "\<lfloor>real P * v\<rfloor> < int P"
  shows "get_cifar100_loaders ''data'' None None bs nw v sh ''imagefolder'' rs (example_folder_world ss) =
           (Inr (\<lparr>loader_dataset = Some (Subset (example_train_folder ss)
                     (take (nat (int P - \<lfloor>real P * v\<rfloor>)) (map int [0..<P]))),
                   batch_size = bs, shuffle = sh, num_workers = nw, pin_memory = True\<rparr>,
                 \<lparr>loader_dataset = Some (Subset (example_train_folder ss)
                     (drop (nat (int P - \<lfloor>real P * v\<rfloor>)) (map int [0..<P]))),
                   batch_size = bs, shuffle = sh, num_workers = nw, pin_memory = True\<rparr>,
                 \<lparr>loader_dataset = Some example_test_folder,
                   batch_size = bs, shuffle = False, num_workers = nw, pin_memory = True\<rparr>,
                 if rs then Some ((int P - \<lfloor>real P * v\<rfloor>) div bs) else None),
            (example_folder_world ss)\<lparr>accessed := [''data/train'', ''data/test''], generator_state := 1\<rparr>)"
proof -
  let ?w = "example_folder_world ss"
  define k where "k = \<lfloor>real P * v\<rfloor>"
  have k: "0 < k" "k < int P" unfolding k_def by (rule assms(6,7))+
  then have P: "0 < P" by simp
  let ?tr = "take (nat (int P - k)) (map int [0..<P])"
  let ?va = "drop (nat (int P - k)) (map int [0..<P])"
  have ltr: "length ?tr = nat (int P - k)" using k by simp
  have lva: "length ?va = nat k" using k by simp
  have g: "generator ?w (generator_state ?w) P = [0..<P]"
    by (simp add: example_generator)
  have split: "get_imagefolder_dataset ''data'' None None v ?w =
      (Inr (Subset (example_train_folder ss) ?tr, Some (Subset (example_train_folder ss) ?va),
            example_test_folder),
       ?w\<lparr>accessed := [''data/train'', ''data/test''], generator_state := 1\<rparr>)"
    using example_folder_split [of ?w ss P v, OF refl assms(1) P assms(2,3)]
    unfolding g k_def [symmetric] by (simp add: example_folder_world_def)
  have b: "(if ''imagefolder'' = ''default'' then get_cifar100_dataset ''data'' None None v ?w
      else get_imagefolder_dataset ''data'' None None v ?w) =
      (Inr (Subset (example_train_folder ss) ?tr, Some (Subset (example_train_folder ss) ?va),
            example_test_folder),
       ?w\<lparr>accessed := [''data/train'', ''data/test''], generator_state := 1\<rparr>)"
    using split by simp
  have 1: "DataLoader_init (Some (Subset (example_train_folder ss) ?tr)) bs sh nw True =
      Inr \<lparr>loader_dataset = Some (Subset (example_train_folder ss) ?tr),
            batch_size = bs, shuffle = sh, num_workers = nw, pin_memory = True\<rparr>"
    by (rule DataLoader_init_ok [OF assms(5,4)]) (use k ltr in auto)
  have 2: "DataLoader_init (Some (Subset (example_train_folder ss) ?va)) bs sh nw True =
      Inr \<lparr>loader_dataset = Some (Subset (example_train_folder ss) ?va),
            batch_size = bs, shuffle = sh, num_workers = nw, pin_memory = True\<rparr>"
    by (rule DataLoader_init_ok [OF assms(5,4)]) (use k lva in auto)
  have 3: "DataLoader_init (Some example_test_folder) bs False nw True =
      Inr \<lparr>loader_dataset = Some example_test_folder,
            batch_size = bs, shuffle = False, num_workers = nw, pin_memory = True\<rparr>"
    by (rule DataLoader_init_ok [OF assms(5,4)]) simp
  have l: "len (Subset (example_train_folder ss) ?tr) = Inr (nat (int P - k))"
    using ltr by simp
  have n: "int (nat (int P - k)) = int P - k" using k by simp
  have "k \<le> int P" using k by simp
  then show ?thesis
    using get_cifar100_loaders_ok [OF b _ 1 2 3 l, of rs]
    unfolding k_def by simp
qed

text \<open>
  The access log records every construction of a dataset: with a recognized selector the
  builder leaves a log that is strictly longer than the one it found.
\<close>

lemma CIFAR100_init_accessed:
  "\<exists>l. l \<noteq> [] \<and> accessed (snd (CIFAR100_init rt t tf w)) = accessed w @ l"
proof -
  let ?r = "os_path_expanduser (home w) rt"
  let ?n = "if t then ''train'' else ''test''"
  obtain ra wa where a: "load_data ?r ?n w = (ra, wa)" by (cases "load_data ?r ?n w")
  obtain rb wb where b: "load_meta ?r wa = (rb, wb)" by (cases "load_meta ?r wa")
  have wa: "accessed wa = accessed w @ [os_path_join (os_path_join ?r ''cifar-100-python'') ?n]"
    using load_data_snd [of ?r ?n w] unfolding a by simp
  have wb: "accessed wb = accessed wa @ [os_path_join (os_path_join ?r ''cifar-100-python'') ''meta'']"
    using load_meta_snd [of ?r wa] unfolding b by simp
  have "snd (CIFAR100_init rt t tf w) = wa \<or> snd (CIFAR100_init rt t tf w) = wb"
    unfolding CIFAR100_init_def Let_def a
    by (simp add: b split: sum.split option.split prod.split)
  then show ?thesis using wa wb by auto
qed

lemma random_split_accessed: "accessed (snd (random_split ds ls w)) = accessed w"
  by (simp add: random_split_def torch_randperm_def split: sum.split)

lemma unpack_snd:
  "snd (case p of
          (Inl e, w3) \<Rightarrow> (Inl e, w3)
        | (Inr [a, b], w3) \<Rightarrow> (Inr (F a b), w3)
        | (Inr _, w3) \<Rightarrow> (Inl E, w3)) = snd p"
  by (simp split: prod.split sum.split list.split)

lemma get_cifar100_dataset_accessed:
  "\<exists>l. l \<noteq> [] \<and> accessed (snd (get_cifar100_dataset rt tt te v w)) = accessed w @ l"
proof -
  obtain ra wa where a: "CIFAR100_init rt True tt w = (ra, wa)"
    by (cases "CIFAR100_init rt True tt w")
  obtain rb wb where b: "CIFAR100_init rt False te wa = (rb, wb)"
    by (cases "CIFAR100_init rt False te wa")
  obtain la where la: "la \<noteq> []" "accessed wa = accessed w @ la"
    using CIFAR100_init_accessed [of rt True tt w] unfolding a by auto
  obtain lb where lb: "lb \<noteq> []" "accessed wb = accessed wa @ lb"
    using CIFAR100_init_accessed [of rt False te wa] unfolding b by auto
  have "accessed (snd (get_cifar100_dataset rt tt te v w)) = accessed wa \<or>
        accessed (snd (get_cifar100_dataset rt tt te v w)) = accessed wb"
    unfolding get_cifar100_dataset_def a
    by (simp add: b unpack_snd random_split_accessed Let_def split: sum.split)
  then show ?thesis using la lb by auto
qed

lemma get_imagefolder_dataset_accessed:
  "\<exists>l. l \<noteq> [] \<and> accessed (snd (get_imagefolder_dataset rt tt te v w)) = accessed w @ l"
proof -
  obtain ra wa where a: "ImageFolder_init (os_path_join rt ''train'') tt w = (ra, wa)"
    by (cases "ImageFolder_init (os_path_join rt ''train'') tt w")
  obtain rb wb where b: "ImageFolder_init (os_path_join rt ''test'') te wa = (rb, wb)"
    by (cases "ImageFolder_init (os_path_join rt ''test'') te wa")
  have la: "accessed wa = accessed w @ [os_path_join rt ''train'']"
    using ImageFolder_init_snd [of "os_path_join rt ''train''" tt w] unfolding a by simp
  have lb: "accessed wb = accessed wa @ [os_path_join rt ''test'']"
    using ImageFolder_init_snd [of "os_path_join rt ''test''" te wa] unfolding b by simp
  have "accessed (snd (get_imagefolder_dataset rt tt te v w)) = accessed wa \<or>
        accessed (snd (get_imagefolder_dataset rt tt te v w)) = accessed wb"
    unfolding get_imagefolder_dataset_def a
    by (simp add: b unpack_snd random_split_accessed Let_def split: sum.split)
  then show ?thesis using la lb by auto
qed

lemma get_cifar100_loaders_snd:
  "snd (get_cifar100_loaders rt tt te bs nw v sh dt rs w) =
     snd (if dt = ''default'' then get_cifar100_dataset rt tt te v w
          else if dt = ''imagefolder'' then get_imagefolder_dataset rt tt te v w
          else (Inl (ValueError ''Invalid dataset type. Choose from [default, imagefolder].''), w))"
  unfolding get_cifar100_loaders_def
  by (simp split: prod.split sum.split)

lemma recognized_selector_touches_disk:
  assumes "dt = ''default'' \<or> dt = ''imagefolder''"
  shows "\<exists>l. l \<noteq> [] \<and>
           accessed (snd (get_cifar100_loaders rt tt te bs nw v sh dt rs w)) = accessed w @ l"
  using assms get_cifar100_dataset_accessed [of rt tt te v w]
    get_imagefolder_dataset_accessed [of rt tt te v w]
  unfolding get_cifar100_loaders_snd by auto

section \<open>The claims\<close>

subsection \<open>The train and validation split\<close>



subsection \<open>No validation split\<close>

text \<open>
  Claim C2 against the code. With \<open>val_size = 0\<close> the dataset builders return \<open>None\<close> as
  validation dataset, but the loader builder passes it to \<open>DataLoader\<close> all the same. With
  \<open>shuffle\<close> on (the default) the construction of that loader raises \<open>TypeError\<close>; with
  \<open>shuffle\<close> off the builder returns three loaders, the second one over no dataset. In
  neither case is the validation output an absence.
\<close>

theorem C2_validation_loader_over_None:
  "fst (get_cifar100_loaders ''data'' (None :: (image \<Rightarrow> nat) option) None 4 0 0 True ''imagefolder'' False
          (example_folder_world (example_samples 10))) =
     Inl (TypeError ''object of type NoneType has no len()'')
   \<and> fst (get_cifar100_loaders ''data'' (None :: (image \<Rightarrow> nat) option) None 4 0 0 False ''imagefolder'' False
          (example_folder_world (example_samples 10))) =
     Inr (\<lparr>loader_dataset = Some (example_train_folder (example_samples 10)),
            batch_size = 4, shuffle = False, num_workers = 0, pin_memory = True\<rparr>,
          \<lparr>loader_dataset = None,
            batch_size = 4, shuffle = False, num_workers = 0, pin_memory = True\<rparr>,
          \<lparr>loader_dataset = Some example_test_folder,
            batch_size = 4, shuffle = False, num_workers = 0, pin_memory = True\<rparr>,
          None)"
proof -
  let ?w = "example_folder_world (example_samples 10)"
  have ne: "example_samples 10 \<noteq> []" by (simp add: example_samples_nonempty)
  have b: "get_imagefolder_dataset ''data'' None None 0 ?w =
      (Inr (example_train_folder (example_samples 10), None, example_test_folder),
       ?w\<lparr>accessed := accessed ?w @ [''data/train'', ''data/test'']\<rparr>)"
    by (rule example_folder_no_val [OF order_refl ne refl])
  have l: "len (example_train_folder (example_samples 10)) = Inr 10"
    by (simp add: example_train_folder_def length_example_samples)
  show ?thesis
    unfolding get_cifar100_loaders_def
    by (simp add: b l DataLoader_init_def Let_def)
qed

subsection \<open>Where the permutation comes from\<close>

text \<open>
  Claim C3, amended. The split functions take no seed. The permutation is drawn from the
  global generator of the tensor library, so for fixed arguments and a fixed disk the
  train and validation subsets are a function of the state of that generator: two runs
  that start where the generator returns the same permutations produce the same
  subsets (whatever else differs in the world).
\<close>

theorem C3_split_reads_global_generator:
  assumes "home w = home w'" and "files w = files w'" and "folders w = folders w'"
    and "generator w (generator_state w) = generator w' (generator_state w')"
  shows "fst (get_cifar100_dataset rt tt te v w) = fst (get_cifar100_dataset rt tt te v w')
       \<and> fst (get_imagefolder_dataset rt tt te v w) = fst (get_imagefolder_dataset rt tt te v w')"
proof
  obtain ra wa where a: "CIFAR100_init rt True tt w = (ra, wa)"
    by (cases "CIFAR100_init rt True tt w")
  obtain ra' wa' where a': "CIFAR100_init rt True tt w' = (ra', wa')"
    by (cases "CIFAR100_init rt True tt w'")
  have ra: "ra' = ra"
    using CIFAR100_init_fst [OF assms(1,2), of rt True tt] unfolding a a' by simp
  have wa: "home wa = home wa'" "files wa = files wa'"
    using CIFAR100_init_world(1,2) [OF a] CIFAR100_init_world(1,2) [OF a'] assms(1,2) by simp_all
  obtain rb wb where b: "CIFAR100_init rt False te wa = (rb, wb)"
    by (cases "CIFAR100_init rt False te wa")
  obtain rb' wb' where b': "CIFAR100_init rt False te wa' = (rb', wb')"
    by (cases "CIFAR100_init rt False te wa'")
  have rb: "rb' = rb"
    using CIFAR100_init_fst [OF wa, of rt False te] unfolding b b' by simp
  have "generator wb (generator_state wb) = generator wb' (generator_state wb')"
    using CIFAR100_init_world(4,5) [OF a] CIFAR100_init_world(4,5) [OF a']
      CIFAR100_init_world(4,5) [OF b] CIFAR100_init_world(4,5) [OF b'] assms(4) by simp
  then have rs: "fst (random_split ds ls wb) = fst (random_split ds ls wb')" for ds :: "'a dataset" and ls
    by (rule random_split_fst)
  show "fst (get_cifar100_dataset rt tt te v w) = fst (get_cifar100_dataset rt tt te v w')"
    unfolding get_cifar100_dataset_def a a' ra
    by (simp add: b b' rb unpack_fst rs Let_def split: sum.split)
next
  obtain ra wa where a: "ImageFolder_init (os_path_join rt ''train'') tt w = (ra, wa)"
    by (cases "ImageFolder_init (os_path_join rt ''train'') tt w")
  obtain ra' wa' where a': "ImageFolder_init (os_path_join rt ''train'') tt w' = (ra', wa')"
    by (cases "ImageFolder_init (os_path_join rt ''train'') tt w'")
  have ra: "ra' = ra"
    using ImageFolder_init_fst [OF assms(3), of "os_path_join rt ''train''" tt] unfolding a a' by simp
  have wa: "folders wa = folders wa'"
    using ImageFolder_init_world(3) [OF a] ImageFolder_init_world(3) [OF a'] assms(3) by simp
  obtain rb wb where b: "ImageFolder_init (os_path_join rt ''test'') te wa = (rb, wb)"
    by (cases "ImageFolder_init (os_path_join rt ''test'') te wa")
  obtain rb' wb' where b': "ImageFolder_init (os_path_join rt ''test'') te wa' = (rb', wb')"
    by (cases "ImageFolder_init (os_path_join rt ''test'') te wa'")
  have rb: "rb' = rb"
    using ImageFolder_init_fst [OF wa, of "os_path_join rt ''test''" te] unfolding b b' by simp
  have "generator wb (generator_state wb) = generator wb' (generator_state wb')"
    using ImageFolder_init_world(4,5) [OF a] ImageFolder_init_world(4,5) [OF a']
      ImageFolder_init_world(4,5) [OF b] ImageFolder_init_world(4,5) [OF b'] assms(4) by simp
  then have rs: "fst (random_split ds ls wb) = fst (random_split ds ls wb')" for ds :: "'a dataset" and ls
    by (rule random_split_fst)
  show "fst (get_imagefolder_dataset rt tt te v w) = fst (get_imagefolder_dataset rt tt te v w')"
    unfolding get_imagefolder_dataset_def a a' ra
    by (simp add: b b' rb unpack_fst rs Let_def split: sum.split)
qed

theorem C3_split_reads_global_generator_witness:
  "fst (get_cifar100_dataset ''data'' (None :: (image \<Rightarrow> nat) option) None (1 / 2)
          (example_world (example_archive [example_row 0, example_row 1] [7, 9]))) =
   fst (get_cifar100_dataset ''data'' (None :: (image \<Rightarrow> nat) option) None (1 / 2)
          ((example_world (example_archive [example_row 0, example_row 1] [7, 9]))
             \<lparr>accessed := [''elsewhere''], generator_state := 2\<rparr>))
   \<and> fst (get_imagefolder_dataset ''data'' (None :: (image \<Rightarrow> nat) option) None (1 / 2)
          (example_folder_world (example_samples 2))) =
     fst (get_imagefolder_dataset ''data'' (None :: (image \<Rightarrow> nat) option) None (1 / 2)
          ((example_folder_world (example_samples 2))
             \<lparr>accessed := [''elsewhere''], generator_state := 2\<rparr>))"
  using C3_split_reads_global_generator [where w = "example_world (example_archive [example_row 0, example_row 1] [7, 9])"
      and w' = "(example_world (example_archive [example_row 0, example_row 1] [7, 9]))
             \<lparr>accessed := [''elsewhere''], generator_state := 2\<rparr>"
      and rt = "''data''" and tt = "None :: (image \<Rightarrow> nat) option" and te = None and v = "1 / 2"]
    C3_split_reads_global_generator [where w = "example_folder_world (example_samples 2)"
      and w' = "(example_folder_world (example_samples 2))
             \<lparr>accessed := [''elsewhere''], generator_state := 2\<rparr>"
      and rt = "''data''" and tt = "None :: (image \<Rightarrow> nat) option" and te = None and v = "1 / 2"]
  by (simp add: example_generator)

text \<open>
  The claim as stated fails: the split depends on the ambient generator state. Two
  successive runs over the same pool, with the same arguments, return different train
  and validation subsets, because the first run advanced the generator.
\<close>

theorem C3_successive_runs_differ_counterexample:
  "fst (get_imagefolder_dataset ''data'' None None (1 / 2) (example_folder_world (example_samples 2))) =
     Inr (Subset (example_train_folder (example_samples 2)) [0],
          Some (Subset (example_train_folder (example_samples 2)) [1]), example_test_folder)
   \<and> fst (get_imagefolder_dataset ''data'' None None (1 / 2)
        (snd (get_imagefolder_dataset ''data'' (None :: (image \<Rightarrow> nat) option) None (1 / 2)
                (example_folder_world (example_samples 2))))) =
     Inr (Subset (example_train_folder (example_samples 2)) [1],
          Some (Subset (example_train_folder (example_samples 2)) [0]), example_test_folder)"
proof -
  let ?w = "example_folder_world (example_samples 2)"
  let ?w' = "?w\<lparr>accessed := accessed ?w @ [''data/train'', ''data/test''],
               generator_state := Suc (generator_state ?w)\<rparr>"
  have k: "nat (int 2 - \<lfloor>real 2 * (1 / 2)\<rfloor>) = 1" by simp
  have 1: "get_imagefolder_dataset ''data'' None None (1 / 2) ?w =
      (Inr (Subset (example_train_folder (example_samples 2)) (take 1 (map int [0..<2])),
            Some (Subset (example_train_folder (example_samples 2)) (drop 1 (map int [0..<2]))),
            example_test_folder), ?w')"
    using example_folder_split [of ?w "example_samples 2" 2 "1 / 2"]
    unfolding k by (simp add: length_example_samples example_generator)
  have 2: "get_imagefolder_dataset ''data'' None None (1 / 2) ?w' =
      (Inr (Subset (example_train_folder (example_samples 2)) (take 1 (map int (rev [0..<2]))),
            Some (Subset (example_train_folder (example_samples 2)) (drop 1 (map int (rev [0..<2])))),
            example_test_folder),
       ?w'\<lparr>accessed := accessed ?w' @ [''data/train'', ''data/test''],
              generator_state := Suc (generator_state ?w')\<rparr>)"
    using example_folder_split [of ?w' "example_samples 2" 2 "1 / 2"]
    unfolding k by (simp add: length_example_samples example_generator)
  have s: "snd (get_imagefolder_dataset ''data'' (None :: (image \<Rightarrow> nat) option) None (1 / 2) ?w) = ?w'"
    unfolding 1 by (rule snd_conv)
  show ?thesis
    unfolding s unfolding 1 2 fst_conv by (simp add: upt_2)
qed

subsection \<open>The dataset selector\<close>

text \<open>
  Claim C4. For every selector other than \<open>default\<close> and \<open>imagefolder\<close> the loader builder
  raises \<open>ValueError\<close> (the invalid-argument error of the code), and the world it leaves
  is the world it found: no path has been opened or scanned, no dataset constructed.
  (With a recognized selector the access log always grows, see
  \<open>recognized_selector_touches_disk\<close>.)
\<close>

theorem C4_unknown_selector_rejected:
  assumes "dataset_type \<noteq> ''default''" and "dataset_type \<noteq> ''imagefolder''"
  shows "get_cifar100_loaders rt tt te bs nw v sh dataset_type rs w =
           (Inl (ValueError ''Invalid dataset type. Choose from [default, imagefolder].''), w)"
  using assms by (simp add: get_cifar100_loaders_def)

theorem C4_unknown_selector_rejected_witness:
  "get_cifar100_loaders ''data'' (None :: (image \<Rightarrow> nat) option) None 4 4 (1 / 10) True ''bogus'' False
       (example_folder_world (example_samples 10)) =
     (Inl (ValueError ''Invalid dataset type. Choose from [default, imagefolder].''),
      example_folder_world (example_samples 10))
   \<and> accessed (example_folder_world (example_samples 10)) = []"
  using C4_unknown_selector_rejected [of "''bogus''" "''data''" "None :: (image \<Rightarrow> nat) option" None 4 4 "1 / 10" True False
      "example_folder_world (example_samples 10)"]
  by (simp add: example_folder_world_def)

subsection \<open>The test loader\<close>



subsection \<open>Decoding an archive\<close>




subsection \<open>Archives whose label count differs from the image count\<close>

text \<open>
  Claim C7, amended. The reader does not compare the number of decoded images with the
  number of labels. An archive whose buffer decodes to \<open>N \<ge> 1\<close> images is read without
  error whatever the length of its label sequence: the dataset has length \<open>N\<close> and keeps
  the labels as stored. The mismatch shows at item access only: an index that has an
  image and no label raises \<open>IndexError\<close>.
\<close>

theorem C7_no_count_validation:
  assumes "files w (os_path_join (os_path_join (os_path_expanduser (home w) rt) ''cifar-100-python'')
             (if trn then ''train'' else ''test'')) = Some (Pickle e)"
    and "entry_data e = Some rows" and "entry_fine_labels e = Some labels"
    and "rows \<noteq> []" and "\<forall>r \<in> set rows. length r = length (hd rows)"
    and "length (concat rows) = N * 3072" and "0 < N"
    and "files w (os_path_join (os_path_join (os_path_expanduser (home w) rt) ''cifar-100-python'')
             ''meta'') = Some (Pickle m)"
    and "entry_fine_label_names m = Some names"
  shows "\<exists>d w'. CIFAR100_init rt trn tf w = (Inr d, w') \<and> CIFAR100_len d = Inr N \<and>
           (if trn then train_labels d else test_labels d) = Some labels \<and>
           (\<forall>i. length labels \<le> i \<and> i < N \<longrightarrow> CIFAR100_getitem d (int i) = Inl IndexError)"
proof -
  have st: "np_vstack rows = Inr rows"
    by (rule np_vstack_ok [OF assms(4,5)])
  obtain a4 where a4: "np_reshape_3_32_32 rows = Inr a4"
    using np_reshape_ok [OF assms(6,7)] by blast
  have la4: "length a4 = N"
    using np_reshape_Inr(1) [OF a4] assms(6) by simp
  define imgs where "imgs = np_transpose_0231 a4"
  have limgs: "length imgs = N"
    unfolding imgs_def by (simp only: np_transpose_length la4)
  define d :: "'a CIFAR100" where
    "d = \<lparr>root = os_path_expanduser (home w) rt, train = trn, transform = tf,
          train_data = (if trn then Some imgs else None),
          train_labels = (if trn then Some labels else None),
          test_data = (if trn then None else Some imgs),
          test_labels = (if trn then None else Some labels),
          classes = names\<rparr>"
  have init: "\<exists>w'. CIFAR100_init rt trn tf w = (Inr d, w')"
    unfolding d_def imgs_def
    using CIFAR100_init_ok [OF assms(1,2,3) st a4 assms(8,9), of tf] by blast
  have dat: "(if train d then train_data d else test_data d) = Some imgs"
    and lab: "(if train d then train_labels d else test_labels d) = Some labels"
    and lab0: "(if trn then train_labels d else test_labels d) = Some labels"
    unfolding d_def by simp_all
  have len: "CIFAR100_len d = Inr N"
    unfolding CIFAR100_len_def dat using limgs by simp
  have item: "CIFAR100_getitem d (int i) = Inl IndexError" if "length labels \<le> i \<and> i < N" for i
  proof -
    have gi: "py_getitem imgs (int i) = Inr (imgs ! i)"
      using that limgs by (simp add: py_getitem_nat)
    have gl: "py_getitem labels (int i) = Inl IndexError"
      using that by (simp add: py_getitem_out)
    show ?thesis
      by (simp add: CIFAR100_getitem_def dat lab gi gl)
  qed
  from init len lab0 item show ?thesis by blast
qed

theorem C7_no_count_validation_witness:
  "\<exists>d w'. CIFAR100_init ''data'' True (None :: (image \<Rightarrow> nat) option)
             (example_world (example_archive [example_row 0, example_row 1] [7])) = (Inr d, w')
          \<and> CIFAR100_len d = Inr 2 \<and> train_labels d = Some [7]
          \<and> CIFAR100_getitem d 1 = Inl IndexError"
proof -
  let ?w = "example_world (example_archive [example_row 0, example_row 1] [7])"
  let ?e = "\<lparr>entry_data = Some [example_row 0, example_row 1], entry_fine_labels = Some [7],
             entry_fine_label_names = None\<rparr>"
  let ?m = "\<lparr>entry_data = None, entry_fine_labels = None,
             entry_fine_label_names = Some [''apple'', ''aquarium_fish'']\<rparr>"
  have 1: "files ?w (os_path_join (os_path_join (os_path_expanduser (home ?w) ''data'') ''cifar-100-python'')
             (if True then ''train'' else ''test'')) = Some (Pickle ?e)"
    by (simp add: example_paths example_world_files example_archive_def)
  have 2: "files ?w (os_path_join (os_path_join (os_path_expanduser (home ?w) ''data'') ''cifar-100-python'')
             ''meta'') = Some (Pickle ?m)"
    by (simp add: example_paths example_world_files example_meta_def)
  have "\<exists>d w'. CIFAR100_init ''data'' True (None :: (image \<Rightarrow> nat) option) ?w = (Inr d, w') \<and>
           CIFAR100_len d = Inr 2 \<and>
           (if True then train_labels d else test_labels d) = Some [7] \<and>
           (\<forall>i. length [7 :: int] \<le> i \<and> i < 2 \<longrightarrow> CIFAR100_getitem d (int i) = Inl IndexError)"
    by (rule C7_no_count_validation [OF 1 _ _ example_rows_facts _ 2]) simp_all
  then obtain d w' where init: "CIFAR100_init ''data'' True (None :: (image \<Rightarrow> nat) option) ?w = (Inr d, w')"
    and len: "CIFAR100_len d = Inr 2" and lab: "train_labels d = Some [7]"
    and item: "\<forall>i. length [7 :: int] \<le> i \<and> i < 2 \<longrightarrow> CIFAR100_getitem d (int i) = Inl IndexError"
    by auto
  from item have "length [7 :: int] \<le> 1 \<and> (1 :: nat) < 2 \<longrightarrow> CIFAR100_getitem d (int 1) = Inl IndexError"
    by (rule spec)
  then have "CIFAR100_getitem d 1 = Inl IndexError" by simp
  with init len lab show ?thesis by blast
qed

text \<open>
  The claim as stated fails on an archive with two images and one label: the reader
  returns a dataset of length 2 and raises nothing.
\<close>

theorem C7_mismatch_accepted_counterexample:
  "\<not> isl (fst (CIFAR100_init ''data'' True (None :: (image \<Rightarrow> nat) option)
             (example_world (example_archive [example_row 0, example_row 1] [7]))))
   \<and> CIFAR100_len (projr (fst (CIFAR100_init ''data'' True (None :: (image \<Rightarrow> nat) option)
             (example_world (example_archive [example_row 0, example_row 1] [7]))))) = Inr 2
   \<and> train_labels (projr (fst (CIFAR100_init ''data'' True (None :: (image \<Rightarrow> nat) option)
             (example_world (example_archive [example_row 0, example_row 1] [7]))))) = Some [7]"
proof -
  let ?w = "example_world (example_archive [example_row 0, example_row 1] [7])"
  let ?e = "\<lparr>entry_data = Some [example_row 0, example_row 1], entry_fine_labels = Some [7],
             entry_fine_label_names = None\<rparr>"
  let ?m = "\<lparr>entry_data = None, entry_fine_labels = None,
             entry_fine_label_names = Some [''apple'', ''aquarium_fish'']\<rparr>"
  have 1: "files ?w (os_path_join (os_path_join (os_path_expanduser (home ?w) ''data'') ''cifar-100-python'')
             (if True then ''train'' else ''test'')) = Some (Pickle ?e)"
    by (simp add: example_paths example_world_files example_archive_def)
  have 2: "files ?w (os_path_join (os_path_join (os_path_expanduser (home ?w) ''data'') ''cifar-100-python'')
             ''meta'') = Some (Pickle ?m)"
    by (simp add: example_paths example_world_files example_meta_def)
  have st: "np_vstack [example_row 0, example_row 1] = Inr [example_row 0, example_row 1]"
    by (rule np_vstack_ok [OF example_rows_facts(1,2)])
  obtain a4 where a4: "np_reshape_3_32_32 [example_row 0, example_row 1] = Inr a4"
    using np_reshape_ok [OF example_rows_facts(3)] by auto
  have la4: "length a4 = 2"
    using np_reshape_Inr(1) [OF a4] example_rows_facts(3) by simp
  have init: "fst (CIFAR100_init ''data'' True (None :: (image \<Rightarrow> nat) option) ?w) =
      Inr \<lparr>root = os_path_expanduser (home ?w) ''data'', train = True, transform = None,
            train_data = Some (np_transpose_0231 a4), train_labels = Some [7],
            test_data = None, test_labels = None, classes = [''apple'', ''aquarium_fish'']\<rparr>"
    using CIFAR100_init_ok [where labels = "[7]" and names = "[''apple'', ''aquarium_fish'']"
             and tf = "None :: (image \<Rightarrow> nat) option", OF 1 _ _ st a4 2]
    by simp
  show ?thesis
    unfolding init by (simp add: CIFAR100_len_def np_transpose_length la4)
qed

subsection \<open>Steps per epoch\<close>

text \<open>
  Claim C8. When the steps are requested and the builder returns, the fourth component
  is \<open>len(train_subset) // batch_size\<close>, where \<open>train_subset\<close> is the train dataset that
  the dataset builder returned after the split, the same dataset the train loader
  iterates over. With a pool of 100, a validation fraction of 0.1 and batches of 4 the
  train subset has 90 elements and the result is 22.
\<close>

theorem C8_steps_per_epoch:
  assumes "get_cifar100_loaders rt tt te bs nw v sh dt True w =
             (Inr (train_loader, val_loader, test_loader, steps), w')"
  shows "\<exists>train_subset val_subset test_set n.
           (if dt = ''default'' then get_cifar100_dataset rt tt te v w
            else get_imagefolder_dataset rt tt te v w) = (Inr (train_subset, val_subset, test_set), w') \<and>
           loader_dataset train_loader = Some train_subset \<and>
           len train_subset = Inr n \<and> 0 < bs \<and> steps = Some (int n div bs)"
proof -
  from assms obtain trn val tst where
    b: "(if dt = ''default'' then get_cifar100_dataset rt tt te v w
      else get_imagefolder_dataset rt tt te v w) = (Inr (trn, val, tst), w')"
    and l: "DataLoader_init (Some trn) bs sh nw True = Inr train_loader"
    and s: "if True then (\<exists>n. len trn = Inr n \<and> steps = Some (int n div bs)) else steps = None"
    by (rule get_cifar100_loaders_Inr)
  from DataLoader_init_Inr(1,3) [OF l] have "loader_dataset train_loader = Some trn" "0 < bs"
    by simp_all
  with b s show ?thesis by auto
qed

theorem C8_steps_per_epoch_witness:
  "\<exists>trl vll tel w' train_subset.
     get_cifar100_loaders ''data'' (None :: (image \<Rightarrow> nat) option) None 4 4 (1 / 10) True ''imagefolder'' True
         (example_folder_world (example_samples 100)) = (Inr (trl, vll, tel, Some 22), w') \<and>
     loader_dataset trl = Some train_subset \<and> len train_subset = Inr 90"
proof -
  let ?w = "example_folder_world (example_samples 100)"
  let ?w' = "?w\<lparr>accessed := [''data/train'', ''data/test''], generator_state := 1\<rparr>"
  obtain trl vll tel where res:
    "get_cifar100_loaders ''data'' (None :: (image \<Rightarrow> nat) option) None 4 4 (1 / 10) True ''imagefolder'' True ?w =
       (Inr (trl, vll, tel, Some 22), ?w')"
    and trl: "loader_dataset trl = Some (Subset (example_train_folder (example_samples 100))
                     (take 90 (map int [0..<100])))"
    using example_folder_loaders [of "example_samples 100" 100 "1 / 10" 4 4 True True]
    by (simp add: length_example_samples)
  from C8_steps_per_epoch [OF res] obtain train_subset n where
    "loader_dataset trl = Some train_subset" "len train_subset = Inr n" "Some 22 = Some (int n div 4)"
    by auto
  moreover from this(1,2) trl have "n = 90" by auto
  ultimately show ?thesis using res by blast
qed

subsection \<open>A validation fraction outside the unit interval\<close>

text \<open>
  Claim C9, amended. A \<open>val_size\<close> below 0 is not rejected: the test \<open>val_size > 0.0\<close>
  sends it down the branch of \<open>val_size = 0\<close>, so both dataset builders and the loader
  builder behave exactly as for 0, and when the train and test datasets can be built the
  dataset builders return the whole train pool, no validation dataset and the test
  dataset. (No check exists for a \<open>val_size\<close> above 1 either; what the split does with
  the negative train size is not stated here.)
\<close>

theorem C9_negative_val_size_accepted:
  assumes "val_size < 0"
  shows "get_cifar100_dataset rt tt te val_size w = get_cifar100_dataset rt tt te 0 w
       \<and> get_imagefolder_dataset rt tt te val_size w = get_imagefolder_dataset rt tt te 0 w
       \<and> get_cifar100_loaders rt tt te bs nw val_size sh dt rs w =
           get_cifar100_loaders rt tt te bs nw 0 sh dt rs w
       \<and> (CIFAR100_init rt True tt w = (Inr pool, wa) \<and> CIFAR100_init rt False te wa = (Inr test, wb) \<longrightarrow>
            get_cifar100_dataset rt tt te val_size w = (Inr (Cifar pool, None, Cifar test), wb))
       \<and> (ImageFolder_init (os_path_join rt ''train'') tt w = (Inr fpool, ua) \<and>
          ImageFolder_init (os_path_join rt ''test'') te ua = (Inr ftest, ub) \<longrightarrow>
            get_imagefolder_dataset rt tt te val_size w = (Inr (Folder fpool, None, Folder ftest), ub))"
proof -
  have v: "val_size \<le> 0" using assms by simp
  have c: "get_cifar100_dataset rt tt te val_size w = get_cifar100_dataset rt tt te 0 w"
    by (simp only: get_cifar100_dataset_no_val [OF v] get_cifar100_dataset_no_val [OF order_refl])
  have f: "get_imagefolder_dataset rt tt te val_size w = get_imagefolder_dataset rt tt te 0 w"
    by (simp only: get_imagefolder_dataset_no_val [OF v] get_imagefolder_dataset_no_val [OF order_refl])
  have l: "get_cifar100_loaders rt tt te bs nw val_size sh dt rs w =
           get_cifar100_loaders rt tt te bs nw 0 sh dt rs w"
    unfolding get_cifar100_loaders_def c f ..
  have c2: "get_cifar100_dataset rt tt te val_size w = (Inr (Cifar pool, None, Cifar test), wb)"
    if "CIFAR100_init rt True tt w = (Inr pool, wa)" "CIFAR100_init rt False te wa = (Inr test, wb)"
    using that by (simp add: get_cifar100_dataset_no_val [OF v])
  have f2: "get_imagefolder_dataset rt tt te val_size w = (Inr (Folder fpool, None, Folder ftest), ub)"
    if "ImageFolder_init (os_path_join rt ''train'') tt w = (Inr fpool, ua)"
      "ImageFolder_init (os_path_join rt ''test'') te ua = (Inr ftest, ub)"
    using that by (simp add: get_imagefolder_dataset_no_val [OF v])
  from c f l c2 f2 show ?thesis by blast
qed

theorem C9_negative_val_size_accepted_witness:
  "get_cifar100_loaders ''data'' (None :: (image \<Rightarrow> nat) option) None 4 0 (- 1) False ''imagefolder'' False
       (example_folder_world (example_samples 10)) =
   get_cifar100_loaders ''data'' None None 4 0 0 False ''imagefolder'' False
       (example_folder_world (example_samples 10))
   \<and> fst (get_imagefolder_dataset ''data'' None None (- 1) (example_folder_world (example_samples 10))) =
       Inr (example_train_folder (example_samples 10), None, example_test_folder)
   \<and> (\<exists>pool test.
         fst (get_cifar100_dataset ''data'' (None :: (image \<Rightarrow> nat) option) None (- 1)
               (example_world (example_archive [example_row 0, example_row 1] [7, 9]))) =
           Inr (Cifar pool, None, Cifar test))"
proof (intro conjI)
  let ?w = "example_folder_world (example_samples 10)"
  let ?c = "example_world (example_archive [example_row 0, example_row 1] [7, 9])"
  let ?pool = "\<lparr>folder_root = ''data/train'', folder_transform = (None :: (image \<Rightarrow> nat) option),
                 samples = example_samples 10\<rparr>"
  let ?test = "\<lparr>folder_root = ''data/test'', folder_transform = (None :: (image \<Rightarrow> nat) option),
                 samples = [([[[9]]], 3), ([[[8]]], 1), ([[[7]]], 2)]\<rparr>"
  have neg: "(- 1 :: real) < 0" by simp
  note f = C9_negative_val_size_accepted [OF neg, where rt = "''data''" and tt = "None :: (image \<Rightarrow> nat) option" and te = None
      and w = ?w and fpool = ?pool and ftest = ?test and bs = 4 and nw = 0 and sh = False
      and dt = "''imagefolder''" and rs = False]
  from f show "get_cifar100_loaders ''data'' (None :: (image \<Rightarrow> nat) option) None 4 0 (- 1) False ''imagefolder'' False ?w =
      get_cifar100_loaders ''data'' None None 4 0 0 False ''imagefolder'' False ?w"
    by blast
  have ne: "example_samples 10 \<noteq> []" by (simp add: example_samples_nonempty)
  note i = example_folder_inits(1) [OF ne, where tf = "None :: (image \<Rightarrow> nat) option"]
    example_folder_inits(2) [OF ne, where tg = "None :: (image \<Rightarrow> nat) option"]
  from f i have "get_imagefolder_dataset ''data'' None None (- 1) ?w =
      (Inr (Folder ?pool, None, Folder ?test), ?w\<lparr>accessed := [''data/train'', ''data/test'']\<rparr>)"
    by blast
  then show "fst (get_imagefolder_dataset ''data'' None None (- 1) ?w) =
       Inr (example_train_folder (example_samples 10), None, example_test_folder)"
    by (simp add: example_train_folder_def example_test_folder_def)
  obtain pool test w1 w2 where
    i1: "CIFAR100_init ''data'' True (None :: (image \<Rightarrow> nat) option) ?c = (Inr pool, w1)"
    and i2: "CIFAR100_init ''data'' False (None :: (image \<Rightarrow> nat) option) w1 = (Inr test, w2)"
    by (rule example_cifar_inits)
  from C9_negative_val_size_accepted [OF neg, where rt = "''data''" and tt = "None :: (image \<Rightarrow> nat) option" and te = None
      and w = ?c and pool = pool and wa = w1 and test = test and wb = w2] i1 i2
  have "get_cifar100_dataset ''data'' (None :: (image \<Rightarrow> nat) option) None (- 1) ?c =
      (Inr (Cifar pool, None, Cifar test), w2)"
    by blast
  then show "\<exists>pool test.
         fst (get_cifar100_dataset ''data'' (None :: (image \<Rightarrow> nat) option) None (- 1) ?c) =
           Inr (Cifar pool, None, Cifar test)"
    by auto
qed

text \<open>
  The claim as stated fails at \<open>val_size = -0.5\<close>: construction succeeds.
\<close>

theorem C9_negative_val_size_counterexample:
  "fst (get_imagefolder_dataset ''data'' None None (- 1 / 2) (example_folder_world (example_samples 10))) =
     Inr (example_train_folder (example_samples 10), None, example_test_folder)"
proof -
  have "get_imagefolder_dataset ''data'' None None (- 1 / 2) (example_folder_world (example_samples 10)) =
      (Inr (example_train_folder (example_samples 10), None, example_test_folder),
       (example_folder_world (example_samples 10))
         \<lparr>accessed := accessed (example_folder_world (example_samples 10)) @ [''data/train'', ''data/test'']\<rparr>)"
    by (rule example_folder_no_val) (simp_all add: example_samples_nonempty)
  then show ?thesis by (simp only: fst_conv)
qed

subsection \<open>Item access\<close>

text \<open>
  Claim C10. For every valid index (from \<open>-n\<close> to \<open>n - 1\<close> on an object with \<open>n\<close> images
  and \<open>n\<close> labels), \<open>__getitem__\<close> returns the stored label at that position unchanged.
  The transform is applied to the image only; without a transform the image made from
  the stored array is returned as it is.
\<close>

theorem C10_getitem_returns_stored_label:
  assumes "(if train self then train_data self else test_data self) = Some dat"
    and "(if train self then train_labels self else test_labels self) = Some labels"
    and "length labels = length dat"
    and "- int (length dat) \<le> index" and "index < int (length dat)"
  shows "CIFAR100_getitem self index =
           Inr (case transform self of
                  None \<Rightarrow> PILImage (dat ! nat (if index < 0 then int (length dat) + index else index))
                | Some f \<Rightarrow> Transformed (f (dat ! nat (if index < 0 then int (length dat) + index else index))),
                labels ! nat (if index < 0 then int (length dat) + index else index))"
proof -
  let ?k = "nat (if index < 0 then int (length dat) + index else index)"
  have d: "py_getitem dat index = Inr (dat ! ?k)"
    using assms(4,5) by (simp add: py_getitem_def)
  have l: "py_getitem labels index = Inr (labels ! ?k)"
    using assms(3,4,5) by (simp add: py_getitem_def)
  show ?thesis
    by (rule CIFAR100_getitem_ok [OF assms(1,2) d l])
qed



theorem C10_getitem_returns_stored_label_witness:
  "CIFAR100_getitem example_object (- 1) = Inr (Transformed 2, 9)
   \<and> CIFAR100_getitem (example_object\<lparr>transform := None\<rparr>) 0 = Inr (PILImage [[[1, 2, 3]]], 7)"
  using C10_getitem_returns_stored_label [of example_object "[[[[1, 2, 3]]], [[[4, 5, 6]], [[7, 8, 9]]]]" "[7, 9]" "- 1"]
        C10_getitem_returns_stored_label [of "example_object\<lparr>transform := None\<rparr>" "[[[[1, 2, 3]]], [[[4, 5, 6]], [[7, 8, 9]]]]" "[7, 9]" 0]
  by (simp add: example_object_def)

end
